theory Spec2Isabelle
  imports Complex_Main
begin

section \<open>Python values and exceptions\<close>

text \<open>
  The two retrieval functions of the repository
  (\<^verbatim>\<open>src/services/lc/tools/search_esg_tool.py\<close> and
  \<^verbatim>\<open>src/services/standalone/search_academic_db.py\<close>) work on JSON-like
  values received from three external services.  A value is \<open>None\<close>, a
  boolean, an integer, a float, a string, a list or a dictionary with
  string keys.  A finite float is kept as the rational number it denotes:
  the code only truncates floats and compares them for equality, both of
  which are exact.  Strings are lists of 8-bit characters.
\<close>

datatype pyval =
    PNone
  | PBool bool
  | PInt int
  | PFloat rat
  | PInf
  | PNegInf
  | PNaN
  | PStr string
  | PList "pyval list"
  | PDict "(string \<times> pyval) list"

text \<open>
  Every \<^verbatim>\<open>raise\<close> of the interpreter is a value: the exception class.
  \<open>ServiceError\<close> is whatever an external client raises.
\<close>

datatype error =
    KeyError
  | TypeError
  | ValueError
  | OverflowError
  | IndexError
  | AttributeError
  | ServiceError string

definition bindE :: "error + 'a \<Rightarrow> ('a \<Rightarrow> error + 'b) \<Rightarrow> error + 'b" where
  "bindE m f = (case m of Inl e \<Rightarrow> Inl e | Inr x \<Rightarrow> f x)"

subsection \<open>Truthiness, subscripting, iteration\<close>

text \<open>\<^verbatim>\<open>if v:\<close> on a value.\<close>

fun py_truthy :: "pyval \<Rightarrow> bool" where
  "py_truthy PNone = False"
| "py_truthy (PBool b) = b"
| "py_truthy (PInt n) = (n \<noteq> 0)"
| "py_truthy (PFloat q) = (q \<noteq> 0)"
| "py_truthy PInf = True"
| "py_truthy PNegInf = True"
| "py_truthy PNaN = True"
| "py_truthy (PStr s) = (s \<noteq> [])"
| "py_truthy (PList xs) = (xs \<noteq> [])"
| "py_truthy (PDict d) = (d \<noteq> [])"

text \<open>\<^verbatim>\<open>d[k]\<close> on a dictionary with string keys: \<open>KeyError\<close> when absent.\<close>

definition dict_getitem :: "(string \<times> pyval) list \<Rightarrow> string \<Rightarrow> error + pyval" where
  "dict_getitem d k = (case map_of d k of None \<Rightarrow> Inl KeyError | Some v \<Rightarrow> Inr v)"

text \<open>
  \<^verbatim>\<open>v[k]\<close> with a string \<open>k\<close> on any value: a dictionary is looked up, a
  string or a list refuses a string index, the other values are not
  subscriptable.
\<close>

fun py_getitem :: "pyval \<Rightarrow> string \<Rightarrow> error + pyval" where
  "py_getitem (PDict d) k = dict_getitem d k"
| "py_getitem v k = Inl TypeError"

text \<open>\<^verbatim>\<open>v.get(k, default)\<close>: only a dictionary has the method.\<close>

fun py_get :: "pyval \<Rightarrow> string \<Rightarrow> pyval \<Rightarrow> error + pyval" where
  "py_get (PDict d) k dflt = Inr (case map_of d k of None \<Rightarrow> dflt | Some v \<Rightarrow> v)"
| "py_get v k dflt = Inl AttributeError"

text \<open>
  \<^verbatim>\<open>for x in v\<close>: a list gives its elements, a string its characters, a
  dictionary its keys; nothing else is iterable.
\<close>

fun py_iter :: "pyval \<Rightarrow> error + pyval list" where
  "py_iter (PList xs) = Inr xs"
| "py_iter (PStr s) = Inr (map (\<lambda>c. PStr [c]) s)"
| "py_iter (PDict d) = Inr (map (\<lambda>kv. PStr (fst kv)) d)"
| "py_iter v = Inl TypeError"

subsection \<open>Sets and dictionaries keyed by values\<close>

text \<open>
  A set element or dictionary key must be hashable: lists and dictionaries
  are not.  Two keys are the same when they compare equal: booleans,
  integers and floats compare by numeric value, \<open>nan\<close> equals nothing (the
  keys of one request are distinct objects), everything else compares
  structurally.
\<close>

fun py_hashable :: "pyval \<Rightarrow> bool" where
  "py_hashable (PList xs) = False"
| "py_hashable (PDict d) = False"
| "py_hashable v = True"

fun py_number :: "pyval \<Rightarrow> rat option" where
  "py_number (PBool b) = Some (if b then 1 else 0)"
| "py_number (PInt n) = Some (of_int n)"
| "py_number (PFloat q) = Some q"
| "py_number v = None"

definition key_eq :: "pyval \<Rightarrow> pyval \<Rightarrow> bool" where
  "key_eq a b = (case (py_number a, py_number b) of
       (Some x, Some y) \<Rightarrow> x = y
     | (None, None) \<Rightarrow> a = b \<and> a \<noteq> PNaN
     | _ \<Rightarrow> False)"

text \<open>
  \<^verbatim>\<open>s.add(x)\<close> on a set kept as the list of its elements in insertion
  order.  The order in which \<^verbatim>\<open>list(s)\<close> hands the elements to a service
  is the interpreter's own (it follows the hashes); the model hands them
  over in insertion order.  The services are arbitrary functions of their
  request and no property below speaks of that order.
\<close>

definition set_add :: "pyval list \<Rightarrow> pyval \<Rightarrow> error + pyval list" where
  "set_add s x =
     (if \<not> py_hashable x then Inl TypeError
      else if list_ex (key_eq x) s then Inr s
      else Inr (s @ [x]))"

text \<open>
  A dictionary keyed by values is the list of its items in insertion order.
  Storing under a key that is present replaces the value and keeps the
  position.
\<close>

type_synonym pydict = "(pyval \<times> pyval) list"

fun dict_find :: "pydict \<Rightarrow> pyval \<Rightarrow> pyval option" where
  "dict_find [] k = None"
| "dict_find ((k', v) # d) k = (if key_eq k' k then Some v else dict_find d k)"

fun dict_store :: "pydict \<Rightarrow> pyval \<Rightarrow> pyval \<Rightarrow> pydict" where
  "dict_store [] k v = [(k, v)]"
| "dict_store ((k', v') # d) k v =
     (if key_eq k' k then (k', v) # d else (k', v') # dict_store d k v)"

definition dict_setitem :: "pydict \<Rightarrow> pyval \<Rightarrow> pyval \<Rightarrow> error + pydict" where
  "dict_setitem d k v = (if py_hashable k then Inr (dict_store d k v) else Inl TypeError)"

text \<open>\<^verbatim>\<open>d.get(k, default)\<close> on such a dictionary; the key is hashed first.\<close>

definition dict_get :: "pydict \<Rightarrow> pyval \<Rightarrow> pyval \<Rightarrow> error + pyval" where
  "dict_get d k dflt =
     (if py_hashable k
      then Inr (case dict_find d k of None \<Rightarrow> dflt | Some v \<Rightarrow> v)
      else Inl TypeError)"

section \<open>Builtins used by the pipelines\<close>

subsection \<open>Decimal digits\<close>

definition is_digit :: "char \<Rightarrow> bool" where
  "is_digit c = (c \<in> set ''0123456789'')"

definition digit_val :: "char \<Rightarrow> nat" where
  "digit_val c = (if is_digit c then length (takeWhile (\<lambda>d. d \<noteq> c) ''0123456789'') else 0)"

definition digits_val :: "string \<Rightarrow> nat" where
  "digits_val s = foldl (\<lambda>n c. 10 * n + digit_val c) 0 s"

definition digit_char :: "nat \<Rightarrow> char" where
  "digit_char n = hd (drop (n mod 10) ''0123456789'')"

text \<open>\<^verbatim>\<open>str(n)\<close> for a natural number and for an integer.\<close>

fun str_nat :: "nat \<Rightarrow> string" where
  "str_nat n = (if n < 10 then [digit_char n] else str_nat (n div 10) @ [digit_char (n mod 10)])"

declare str_nat.simps [simp del]

definition str_int :: "int \<Rightarrow> string" where
  "str_int i = (if i < 0 then CHR ''-'' # str_nat (nat (- i)) else str_nat (nat i))"

text \<open>
  \<^verbatim>\<open>"{}".format(i)\<close> for an integer: a number of more than 4300 digits is
  not printed (the interpreter's default limit) and a \<open>ValueError\<close> is
  raised.
\<close>

definition format_int :: "int \<Rightarrow> error + string" where
  "format_int i = (if 4300 < length (str_nat (nat \<bar>i\<bar>)) then Inl ValueError else Inr (str_int i))"

text \<open>Zero padding to a width, as \<^verbatim>\<open>%m\<close> and \<^verbatim>\<open>%d\<close> print.\<close>

definition zero_pad :: "nat \<Rightarrow> string \<Rightarrow> string" where
  "zero_pad w s = replicate (w - length s) (CHR ''0'') @ s"

subsection \<open>\<^verbatim>\<open>str.rpartition\<close>\<close>

text \<open>
  \<^verbatim>\<open>s.rpartition(sep)\<close> for a one-character separator: the text before the
  last occurrence, the separator, the text after it; when the separator
  does not occur, two empty strings and \<open>s\<close>.
\<close>

definition rpartition :: "string \<Rightarrow> char \<Rightarrow> string \<times> string \<times> string" where
  "rpartition s sep =
     (if sep \<in> set s
      then (rev (tl (dropWhile (\<lambda>c. c \<noteq> sep) (rev s))),
            [sep],
            rev (takeWhile (\<lambda>c. c \<noteq> sep) (rev s)))
      else ([], [], s))"

subsection \<open>\<^verbatim>\<open>int(v)\<close>\<close>

text \<open>
  The whitespace \<^verbatim>\<open>int\<close> skips around a literal: the six blanks of the C
  locale and, among the other 8-bit characters, the next-line character and
  the no-break space, which the interpreter replaces by blanks before it
  reads the literal.  The separators \<open>0x1C\<close> to \<open>0x1F\<close> are not skipped.
\<close>

definition is_space :: "char \<Rightarrow> bool" where
  "is_space c = (c \<in> set [CHR 0x09, CHR 0x0A, CHR 0x0B, CHR 0x0C, CHR 0x0D, CHR 0x20,
                           CHR 0x85, CHR 0xA0])"

definition strip :: "string \<Rightarrow> string" where
  "strip s = rev (dropWhile is_space (rev (dropWhile is_space s)))"

text \<open>
  The digits of a decimal literal: groups of digits separated by single
  underscores.
\<close>

fun digit_groups :: "string \<Rightarrow> bool" where
  "digit_groups [] = False"
| "digit_groups [c] = is_digit c"
| "digit_groups (c # d # r) =
     (is_digit c \<and> (if d = CHR ''_'' then digit_groups r else digit_groups (d # r)))"

text \<open>
  \<^verbatim>\<open>int(s)\<close> for a string: surrounding whitespace is dropped, one sign is
  allowed, and a literal of more than 4300 digits is refused (the
  interpreter's default limit).
\<close>

definition py_int_str :: "string \<Rightarrow> error + int" where
  "py_int_str s =
     (let t = strip s;
          neg = (t \<noteq> [] \<and> hd t = CHR ''-'');
          body = (if t \<noteq> [] \<and> (hd t = CHR ''-'' \<or> hd t = CHR ''+'') then tl t else t);
          ds = filter is_digit body
      in if \<not> digit_groups body \<or> 4300 < length ds then Inl ValueError
         else Inr (if neg then - int (digits_val ds) else int (digits_val ds)))"

text \<open>A float is truncated towards zero.\<close>

definition trunc :: "rat \<Rightarrow> int" where
  "trunc q = (if 0 \<le> q then \<lfloor>q\<rfloor> else \<lceil>q\<rceil>)"

fun py_int :: "pyval \<Rightarrow> error + int" where
  "py_int PNone = Inl TypeError"
| "py_int (PBool b) = Inr (if b then 1 else 0)"
| "py_int (PInt n) = Inr n"
| "py_int (PFloat q) = Inr (trunc q)"
| "py_int PInf = Inl OverflowError"
| "py_int PNegInf = Inl OverflowError"
| "py_int PNaN = Inl ValueError"
| "py_int (PStr s) = py_int_str s"
| "py_int (PList xs) = Inl TypeError"
| "py_int (PDict d) = Inl TypeError"

subsection \<open>\<^verbatim>\<open>"{}".format(v)\<close> and \<^verbatim>\<open>sep.join(v)\<close>\<close>

text \<open>
  A replacement field prints a string as it is and any other value through
  \<^verbatim>\<open>str\<close>.  The printing of floats, lists and dictionaries is the
  interpreter's own; it is a parameter \<open>str\<close> of the model.
\<close>

definition py_format :: "(pyval \<Rightarrow> string) \<Rightarrow> pyval \<Rightarrow> string" where
  "py_format str v = (case v of PStr s \<Rightarrow> s | _ \<Rightarrow> str v)"

fun the_strs :: "pyval list \<Rightarrow> error + string list" where
  "the_strs [] = Inr []"
| "the_strs (PStr s # xs) = bindE (the_strs xs) (\<lambda>ss. Inr (s # ss))"
| "the_strs (v # xs) = Inl TypeError"

fun intercalate :: "string \<Rightarrow> string list \<Rightarrow> string" where
  "intercalate sep [] = []"
| "intercalate sep [s] = s"
| "intercalate sep (s # t # ss) = s @ sep @ intercalate sep (t # ss)"

text \<open>
  \<^verbatim>\<open>sep.join(v)\<close>: \<open>v\<close> must be iterable and every item a string.
\<close>

definition str_join :: "string \<Rightarrow> pyval \<Rightarrow> error + string" where
  "str_join sep v =
     bindE (py_iter v) (\<lambda>xs. bindE (the_strs xs) (\<lambda>ss. Inr (intercalate sep ss)))"

subsection \<open>Dates\<close>

record datetime =
  dt_year :: nat
  dt_month :: nat
  dt_day :: nat
  dt_hour :: nat
  dt_minute :: nat
  dt_second :: nat

definition is_leap :: "nat \<Rightarrow> bool" where
  "is_leap y = (y mod 4 = 0 \<and> (y mod 100 \<noteq> 0 \<or> y mod 400 = 0))"

definition days_in_month :: "nat \<Rightarrow> nat \<Rightarrow> nat" where
  "days_in_month y m =
     (if m = 2 then (if is_leap y then 29 else 28)
      else if m \<in> {4, 6, 9, 11} then 30 else 31)"

text \<open>
  \<^verbatim>\<open>datetime.strptime(v, "%Y-%m-%dT%H:%M:%SZ")\<close>.  The library turns the
  format into a regular expression, one alternation per directive, and
  matches it case-insensitively at the start of the text, trying the
  alternatives from left to right with backtracking:

  \<^verbatim>\<open>%Y  \d\d\d\d\<close>
  \<^verbatim>\<open>%m  1[0-2]|0[1-9]|[1-9]\<close>
  \<^verbatim>\<open>%d  3[0-1]|[1-2]\d|0[1-9]|[1-9]| [1-9]\<close>
  \<^verbatim>\<open>%H  2[0-3]|[0-1]\d|\d\<close>
  \<^verbatim>\<open>%M  [0-5]\d|\d\<close>
  \<^verbatim>\<open>%S  6[0-1]|[0-5]\d|\d\<close>

  An alternative is a function from the text to the list of its matches
  (matched text and rest); alternation is list concatenation, sequencing is
  the list comprehension, and the first element is the match found.
\<close>

definition in_range :: "nat \<Rightarrow> nat \<Rightarrow> char \<Rightarrow> bool" where
  "in_range lo hi c = (is_digit c \<and> lo \<le> digit_val c \<and> digit_val c \<le> hi)"

definition cls1 :: "(char \<Rightarrow> bool) \<Rightarrow> string \<Rightarrow> (string \<times> string) list" where
  "cls1 p s = (case s of a # r \<Rightarrow> (if p a then [([a], r)] else []) | _ \<Rightarrow> [])"

definition cls2 :: "(char \<Rightarrow> bool) \<Rightarrow> (char \<Rightarrow> bool) \<Rightarrow> string \<Rightarrow> (string \<times> string) list" where
  "cls2 p q s =
     (case s of a # b # r \<Rightarrow> (if p a \<and> q b then [([a, b], r)] else []) | _ \<Rightarrow> [])"

definition re_lit :: "string \<Rightarrow> string \<Rightarrow> string list" where
  "re_lit cs s = (case s of a # r \<Rightarrow> (if a \<in> set cs then [r] else []) | _ \<Rightarrow> [])"

definition re_Y :: "string \<Rightarrow> (string \<times> string) list" where
  "re_Y s =
     (case s of a # b # c # d # r \<Rightarrow>
        (if is_digit a \<and> is_digit b \<and> is_digit c \<and> is_digit d then [([a, b, c, d], r)] else [])
      | _ \<Rightarrow> [])"

definition re_m :: "string \<Rightarrow> (string \<times> string) list" where
  "re_m s = cls2 (\<lambda>c. c = CHR ''1'') (in_range 0 2) s
          @ cls2 (\<lambda>c. c = CHR ''0'') (in_range 1 9) s
          @ cls1 (in_range 1 9) s"

definition re_d :: "string \<Rightarrow> (string \<times> string) list" where
  "re_d s = cls2 (\<lambda>c. c = CHR ''3'') (in_range 0 1) s
          @ cls2 (in_range 1 2) is_digit s
          @ cls2 (\<lambda>c. c = CHR ''0'') (in_range 1 9) s
          @ cls1 (in_range 1 9) s
          @ cls2 (\<lambda>c. c = CHR '' '') (in_range 1 9) s"

definition re_H :: "string \<Rightarrow> (string \<times> string) list" where
  "re_H s = cls2 (\<lambda>c. c = CHR ''2'') (in_range 0 3) s
          @ cls2 (in_range 0 1) is_digit s
          @ cls1 is_digit s"

definition re_M :: "string \<Rightarrow> (string \<times> string) list" where
  "re_M s = cls2 (in_range 0 5) is_digit s @ cls1 is_digit s"

definition re_S :: "string \<Rightarrow> (string \<times> string) list" where
  "re_S s = cls2 (\<lambda>c. c = CHR ''6'') (in_range 0 1) s
          @ cls2 (in_range 0 5) is_digit s
          @ cls1 is_digit s"

text \<open>
  The matches of the whole expression: the six captured fields and the
  text left after the final \<open>Z\<close>.
\<close>

definition iso_matches :: "string \<Rightarrow> ((string \<times> string \<times> string \<times> string \<times> string \<times> string) \<times> string) list" where
  "iso_matches s =
     [((Y, m, d, H, M, S), r12).
        (Y, r1) \<leftarrow> re_Y s, r2 \<leftarrow> re_lit ''-'' r1,
        (m, r3) \<leftarrow> re_m r2, r4 \<leftarrow> re_lit ''-'' r3,
        (d, r5) \<leftarrow> re_d r4, r6 \<leftarrow> re_lit ''Tt'' r5,
        (H, r7) \<leftarrow> re_H r6, r8 \<leftarrow> re_lit '':'' r7,
        (M, r9) \<leftarrow> re_M r8, r10 \<leftarrow> re_lit '':'' r9,
        (S, r11) \<leftarrow> re_S r10, r12 \<leftarrow> re_lit ''Zz'' r11]"

text \<open>
  The fields are converted with \<^verbatim>\<open>int\<close> (which drops the blank a day may
  start with); the date must exist in the calendar (years start at 1) and
  the second must be below 60.  Text that is not a string is a
  \<open>TypeError\<close>; text that does not match, text left over and a date that
  does not exist are a \<open>ValueError\<close>.
\<close>

definition strptime_iso :: "pyval \<Rightarrow> error + datetime" where
  "strptime_iso v =
     (case v of
        PStr s \<Rightarrow>
          (case iso_matches s of
             [] \<Rightarrow> Inl ValueError
           | ((Y, m, d, H, M, S), rest) # _ \<Rightarrow>
               (let year = digits_val Y; month = digits_val m;
                    day = digits_val (dropWhile is_space d);
                    hour = digits_val H; minute = digits_val M; second = digits_val S
                in if rest \<noteq> [] then Inl ValueError
                   else if year < 1 \<or> days_in_month year month < day \<or> 59 < second
                   then Inl ValueError
                   else Inr \<lparr>dt_year = year, dt_month = month, dt_day = day,
                             dt_hour = hour, dt_minute = minute, dt_second = second\<rparr>))
      | _ \<Rightarrow> Inl TypeError)"

text \<open>
  \<^verbatim>\<open>date.strftime("%Y-%m-%d")\<close> and \<^verbatim>\<open>date.strftime("%Y-%m")\<close>.  The
  interpreter leaves the printing to the C library, which pads month and
  day to two digits and prints the year as it is: a year below 1000 comes
  out on fewer than four digits (\<^verbatim>\<open>999-01-01\<close>).
\<close>

definition strftime_Ymd :: "datetime \<Rightarrow> string" where
  "strftime_Ymd date =
     str_nat (dt_year date) @ ''-'' @ zero_pad 2 (str_nat (dt_month date))
       @ ''-'' @ zero_pad 2 (str_nat (dt_day date))"

definition strftime_Ym :: "datetime \<Rightarrow> string" where
  "strftime_Ym date =
     str_nat (dt_year date) @ ''-'' @ zero_pad 2 (str_nat (dt_month date))"

section \<open>The external services\<close>

text \<open>
  The constants of \<^verbatim>\<open>src.config.config\<close> that reach a request.  The module
  is not part of the sources at hand, so the values are parameters.
\<close>

record config =
  OPENAI_EMBEDDING_MODEL_V3 :: string
  PINECONE_NAMESPACE_ESG :: string
  PINECONE_NAMESPACE_SCI :: string

text \<open>The keyword arguments of \<^verbatim>\<open>idx.query\<close>.\<close>

record pinecone_query =
  q_namespace :: string
  q_vector :: pyval
  q_filter :: pyval
  q_top_k :: "int option"
  q_include_metadata :: bool

text \<open>One element of \<^verbatim>\<open>docs["matches"]\<close>.\<close>

record vmatch =
  m_id :: string
  m_metadata :: "(string \<times> pyval) list"

text \<open>
  The clients the functions construct, as the answers they give, and the
  two parts of the interpreter that the model does not fix: the local time
  zone behind \<^verbatim>\<open>datetime.fromtimestamp\<close> and \<^verbatim>\<open>str\<close> on a value that
  is not a string.

  \<^item> \<open>embeddings_create input model\<close> is \<^verbatim>\<open>response.data\<close>, the list of
    embeddings;
  \<^item> \<open>index_query q\<close> is \<^verbatim>\<open>docs["matches"]\<close>;
  \<^item> \<open>xata_query table payload\<close> is the response dictionary;
  \<^item> \<open>supabase_select_in table columns column values\<close> is
    \<^verbatim>\<open>supabase_response.data\<close>.
\<close>

record services =
  embeddings_create :: "string \<Rightarrow> string \<Rightarrow> error + pyval list"
  index_query :: "pinecone_query \<Rightarrow> error + vmatch list"
  xata_query :: "string \<Rightarrow> pyval \<Rightarrow> error + (string \<times> pyval) list"
  supabase_select_in :: "string \<Rightarrow> string \<Rightarrow> string \<Rightarrow> pyval list \<Rightarrow> error + pyval"
  fromtimestamp :: "pyval \<Rightarrow> error + datetime"
  py_str :: "pyval \<Rightarrow> string"

text \<open>\<^verbatim>\<open>response.data[0]\<close>.\<close>

definition first_item :: "'a list \<Rightarrow> error + 'a" where
  "first_item xs = (case xs of [] \<Rightarrow> Inl IndexError | x # _ \<Rightarrow> Inr x)"

text \<open>One element of \<^verbatim>\<open>docs_list\<close>.\<close>

record entry =
  content :: pyval
  source :: string

definition entry_dict :: "entry \<Rightarrow> pyval" where
  "entry_dict e = PDict [(''content'', content e), (''source'', PStr (source e))]"

section \<open>The ESG tool, \<^verbatim>\<open>SearchESG._run\<close>\<close>

text \<open>Lines 51 to 53: the filter of the vector search.\<close>

definition run_filter :: "string list option \<Rightarrow> pyval" where
  "run_filter doc_ids =
     (case doc_ids of
        None \<Rightarrow> PNone
      | Some ids \<Rightarrow>
          (if ids \<noteq> [] then PDict [(''rec_id'', PDict [(''$in'', PList (map PStr ids))])]
           else PNone))"

text \<open>Lines 55 to 61: the request sent to the index.\<close>

definition run_query :: "config \<Rightarrow> pyval \<Rightarrow> int option \<Rightarrow> string list option \<Rightarrow> pinecone_query" where
  "run_query cfg query_vector top_k doc_ids =
     \<lparr>q_namespace = PINECONE_NAMESPACE_ESG cfg, q_vector = query_vector,
      q_filter = run_filter doc_ids, q_top_k = top_k, q_include_metadata = True\<rparr>"

text \<open>Lines 63 to 66: the set of record identifiers.\<close>

fun run_id_set :: "vmatch list \<Rightarrow> pyval list \<Rightarrow> error + pyval list" where
  "run_id_set [] id_set = Inr id_set"
| "run_id_set (doc # docs) id_set =
     bindE (dict_getitem (m_metadata doc) ''rec_id'') (\<lambda>id.
     bindE (set_add id_set id) (\<lambda>id_set'.
     run_id_set docs id_set'))"

text \<open>Lines 68 to 76: the body of the bulk lookup.\<close>

definition run_payload :: "pyval list \<Rightarrow> pyval" where
  "run_payload id_set =
     PDict [(''columns'', PList [PStr ''company_short_name'', PStr ''report_title'',
                                  PStr ''publication_date'']),
            (''filter'', PDict [(''id'', PDict [(''$any'', PList id_set)])])]"

text \<open>Line 79: \<^verbatim>\<open>{record["id"]: record for record in records}\<close>.\<close>

fun run_records_dict :: "pyval list \<Rightarrow> pydict \<Rightarrow> error + pydict" where
  "run_records_dict [] d = Inr d"
| "run_records_dict (record # records) d =
     bindE (py_getitem record ''id'') (\<lambda>k.
     bindE (dict_setitem d k record) (\<lambda>d'.
     run_records_dict records d'))"

text \<open>Lines 87 to 102: the body of \<^verbatim>\<open>if record:\<close>, one entry.\<close>

definition run_entry :: "(pyval \<Rightarrow> string) \<Rightarrow> pyval \<Rightarrow> vmatch \<Rightarrow> error + entry" where
  "run_entry str record doc =
     bindE (py_get record ''publication_date'' PNone) (\<lambda>publication_date.
     bindE (strptime_iso publication_date) (\<lambda>date.
     let formatted_date = strftime_Ymd date in
     bindE (py_get record ''company_short_name'' (PStr [])) (\<lambda>company_short_name.
     bindE (py_get record ''report_title'' (PStr [])) (\<lambda>report_title.
     bindE (dict_getitem (m_metadata doc) ''page_number'') (\<lambda>page_number.
     bindE (py_int page_number) (\<lambda>page.
     bindE (format_int page) (\<lambda>page_str.
     let source_entry =
           py_format str company_short_name @ ''. '' @ py_format str report_title @ ''. ''
             @ formatted_date @ ''. (P'' @ page_str @ '')'' in
     bindE (dict_getitem (m_metadata doc) ''text'') (\<lambda>text.
     Inr \<lparr>content = text, source = source_entry\<rparr>))))))))"

text \<open>Lines 81 to 102: the join loop.\<close>

fun run_docs_list :: "(pyval \<Rightarrow> string) \<Rightarrow> pydict \<Rightarrow> vmatch list \<Rightarrow> entry list \<Rightarrow> error + entry list" where
  "run_docs_list str records_dict [] docs_list = Inr docs_list"
| "run_docs_list str records_dict (doc # docs) docs_list =
     bindE (dict_getitem (m_metadata doc) ''rec_id'') (\<lambda>id.
     bindE (dict_get records_dict id (PDict [])) (\<lambda>record.
     if py_truthy record
     then bindE (run_entry str record doc) (\<lambda>e.
          run_docs_list str records_dict docs (docs_list @ [e]))
     else run_docs_list str records_dict docs docs_list))"

text \<open>
  The stages after the vector search, lines 63 to 102, from the matches and
  the answer of the metadata store to \<^verbatim>\<open>docs_list\<close>.
\<close>

definition run_records :: "(string \<times> pyval) list \<Rightarrow> pyval" where
  "run_records xata_response =
     (case map_of xata_response ''records'' of None \<Rightarrow> PList [] | Some v \<Rightarrow> v)"

definition SearchESG_run :: "config \<Rightarrow> services \<Rightarrow> string \<Rightarrow> int option \<Rightarrow> string list option \<Rightarrow> error + string" where
  "SearchESG_run cfg sv query top_k doc_ids =
     bindE (embeddings_create sv query (OPENAI_EMBEDDING_MODEL_V3 cfg)) (\<lambda>data.
     bindE (first_item data) (\<lambda>query_vector.
     bindE (index_query sv (run_query cfg query_vector top_k doc_ids)) (\<lambda>matches.
     bindE (run_id_set matches []) (\<lambda>id_set.
     bindE (xata_query sv ''ESG'' (run_payload id_set)) (\<lambda>xata_response.
     bindE (py_iter (run_records xata_response)) (\<lambda>records.
     bindE (run_records_dict records []) (\<lambda>records_dict.
     bindE (run_docs_list (py_str sv) records_dict matches []) (\<lambda>docs_list.
     Inr (py_str sv (PList (map entry_dict docs_list)))))))))))"

section \<open>The ESG tool, \<^verbatim>\<open>SearchESG._arun\<close>\<close>

text \<open>
  The coroutine has a body of its own, lines 115 to 179, with no
  \<^verbatim>\<open>await\<close> in it: awaiting it runs the body to its end.  It is
  translated on its own, statement by statement.
\<close>

definition arun_filter :: "string list option \<Rightarrow> pyval" where
  "arun_filter doc_ids =
     (case doc_ids of
        None \<Rightarrow> PNone
      | Some ids \<Rightarrow>
          (if ids \<noteq> [] then PDict [(''rec_id'', PDict [(''$in'', PList (map PStr ids))])]
           else PNone))"

definition arun_query :: "config \<Rightarrow> pyval \<Rightarrow> int option \<Rightarrow> string list option \<Rightarrow> pinecone_query" where
  "arun_query cfg query_vector top_k doc_ids =
     \<lparr>q_namespace = PINECONE_NAMESPACE_ESG cfg, q_vector = query_vector,
      q_filter = arun_filter doc_ids, q_top_k = top_k, q_include_metadata = True\<rparr>"

fun arun_id_set :: "vmatch list \<Rightarrow> pyval list \<Rightarrow> error + pyval list" where
  "arun_id_set [] id_set = Inr id_set"
| "arun_id_set (doc # docs) id_set =
     bindE (dict_getitem (m_metadata doc) ''rec_id'') (\<lambda>id.
     bindE (set_add id_set id) (\<lambda>id_set'.
     arun_id_set docs id_set'))"

definition arun_payload :: "pyval list \<Rightarrow> pyval" where
  "arun_payload id_set =
     PDict [(''columns'', PList [PStr ''company_short_name'', PStr ''report_title'',
                                  PStr ''publication_date'']),
            (''filter'', PDict [(''id'', PDict [(''$any'', PList id_set)])])]"

fun arun_records_dict :: "pyval list \<Rightarrow> pydict \<Rightarrow> error + pydict" where
  "arun_records_dict [] d = Inr d"
| "arun_records_dict (record # records) d =
     bindE (py_getitem record ''id'') (\<lambda>k.
     bindE (dict_setitem d k record) (\<lambda>d'.
     arun_records_dict records d'))"

definition arun_entry :: "(pyval \<Rightarrow> string) \<Rightarrow> pyval \<Rightarrow> vmatch \<Rightarrow> error + entry" where
  "arun_entry str record doc =
     bindE (py_get record ''publication_date'' PNone) (\<lambda>publication_date.
     bindE (strptime_iso publication_date) (\<lambda>date.
     let formatted_date = strftime_Ymd date in
     bindE (py_get record ''company_short_name'' (PStr [])) (\<lambda>company_short_name.
     bindE (py_get record ''report_title'' (PStr [])) (\<lambda>report_title.
     bindE (dict_getitem (m_metadata doc) ''page_number'') (\<lambda>page_number.
     bindE (py_int page_number) (\<lambda>page.
     bindE (format_int page) (\<lambda>page_str.
     let source_entry =
           py_format str company_short_name @ ''. '' @ py_format str report_title @ ''. ''
             @ formatted_date @ ''. (P'' @ page_str @ '')'' in
     bindE (dict_getitem (m_metadata doc) ''text'') (\<lambda>text.
     Inr \<lparr>content = text, source = source_entry\<rparr>))))))))"

fun arun_docs_list :: "(pyval \<Rightarrow> string) \<Rightarrow> pydict \<Rightarrow> vmatch list \<Rightarrow> entry list \<Rightarrow> error + entry list" where
  "arun_docs_list str records_dict [] docs_list = Inr docs_list"
| "arun_docs_list str records_dict (doc # docs) docs_list =
     bindE (dict_getitem (m_metadata doc) ''rec_id'') (\<lambda>id.
     bindE (dict_get records_dict id (PDict [])) (\<lambda>record.
     if py_truthy record
     then bindE (arun_entry str record doc) (\<lambda>e.
          arun_docs_list str records_dict docs (docs_list @ [e]))
     else arun_docs_list str records_dict docs docs_list))"

definition arun_records :: "(string \<times> pyval) list \<Rightarrow> pyval" where
  "arun_records xata_response =
     (case map_of xata_response ''records'' of None \<Rightarrow> PList [] | Some v \<Rightarrow> v)"

definition SearchESG_arun :: "config \<Rightarrow> services \<Rightarrow> string \<Rightarrow> int option \<Rightarrow> string list option \<Rightarrow> error + string" where
  "SearchESG_arun cfg sv query top_k doc_ids =
     bindE (embeddings_create sv query (OPENAI_EMBEDDING_MODEL_V3 cfg)) (\<lambda>data.
     bindE (first_item data) (\<lambda>query_vector.
     bindE (index_query sv (arun_query cfg query_vector top_k doc_ids)) (\<lambda>matches.
     bindE (arun_id_set matches []) (\<lambda>id_set.
     bindE (xata_query sv ''ESG'' (arun_payload id_set)) (\<lambda>xata_response.
     bindE (py_iter (arun_records xata_response)) (\<lambda>records.
     bindE (arun_records_dict records []) (\<lambda>records_dict.
     bindE (arun_docs_list (py_str sv) records_dict matches []) (\<lambda>docs_list.
     Inr (py_str sv (PList (map entry_dict docs_list)))))))))))"

section \<open>The academic function, \<^verbatim>\<open>search\<close>\<close>

text \<open>Lines 51 and 74: \<^verbatim>\<open>id.rpartition("_")[0]\<close>.\<close>

definition doi_of :: "string \<Rightarrow> string" where
  "doi_of ident = fst (rpartition ident (CHR ''_''))"

text \<open>Lines 42 to 47: the request sent to the index, with no filter.\<close>

definition search_query :: "config \<Rightarrow> pyval \<Rightarrow> int option \<Rightarrow> pinecone_query" where
  "search_query cfg query_vector top_k =
     \<lparr>q_namespace = PINECONE_NAMESPACE_SCI cfg, q_vector = query_vector,
      q_filter = PNone, q_top_k = top_k, q_include_metadata = True\<rparr>"

text \<open>Lines 49 to 52: the set of DOIs.\<close>

fun search_doi_set :: "vmatch list \<Rightarrow> pyval list \<Rightarrow> error + pyval list" where
  "search_doi_set [] doi_set = Inr doi_set"
| "search_doi_set (matche # matches) doi_set =
     bindE (set_add doi_set (PStr (doi_of (m_id matche)))) (\<lambda>doi_set'.
     search_doi_set matches doi_set')"

text \<open>Line 70: \<^verbatim>\<open>{record["doi"]: record for record in records}\<close>.\<close>

fun search_records_dict :: "pyval list \<Rightarrow> pydict \<Rightarrow> error + pydict" where
  "search_records_dict [] d = Inr d"
| "search_records_dict (record # records) d =
     bindE (py_getitem record ''doi'') (\<lambda>k.
     bindE (dict_setitem d k record) (\<lambda>d'.
     search_records_dict records d'))"

text \<open>Lines 78 to 90: the body of \<^verbatim>\<open>if record:\<close>, one entry.\<close>

definition search_entry :: "services \<Rightarrow> string \<Rightarrow> pyval \<Rightarrow> vmatch \<Rightarrow> error + entry" where
  "search_entry sv doi record doc =
     bindE (dict_getitem (m_metadata doc) ''date'') (\<lambda>timestamp.
     bindE (fromtimestamp sv timestamp) (\<lambda>date.
     let formatted_date = strftime_Ym date in
     bindE (py_getitem record ''authors'') (\<lambda>authors_list.
     bindE (str_join '', '' authors_list) (\<lambda>authors.
     let url = ''https://doi.org/'' @ doi in
     bindE (py_getitem record ''title'') (\<lambda>title.
     bindE (dict_getitem (m_metadata doc) ''journal'') (\<lambda>journal.
     let source_entry =
           ''['' @ py_format (py_str sv) title @ ''. '' @ py_format (py_str sv) journal @ ''. ''
             @ authors @ ''. '' @ formatted_date @ ''.]('' @ url @ '')'' in
     bindE (dict_getitem (m_metadata doc) ''text'') (\<lambda>text.
     Inr \<lparr>content = text, source = source_entry\<rparr>)))))))"

text \<open>Lines 72 to 90: the join loop.\<close>

fun search_docs_list :: "services \<Rightarrow> pydict \<Rightarrow> vmatch list \<Rightarrow> entry list \<Rightarrow> error + entry list" where
  "search_docs_list sv records_dict [] docs_list = Inr docs_list"
| "search_docs_list sv records_dict (doc # docs) docs_list =
     (let doi = doi_of (m_id doc) in
      bindE (dict_get records_dict (PStr doi) (PDict [])) (\<lambda>record.
      if py_truthy record
      then bindE (search_entry sv doi record doc) (\<lambda>e.
           search_docs_list sv records_dict docs (docs_list @ [e]))
      else search_docs_list sv records_dict docs docs_list))"

definition search :: "config \<Rightarrow> services \<Rightarrow> string \<Rightarrow> int option \<Rightarrow> error + entry list" where
  "search cfg sv query top_k =
     bindE (embeddings_create sv query (OPENAI_EMBEDDING_MODEL_V3 cfg)) (\<lambda>data.
     bindE (first_item data) (\<lambda>query_vector.
     bindE (index_query sv (search_query cfg query_vector top_k)) (\<lambda>matches.
     bindE (search_doi_set matches []) (\<lambda>doi_set.
     bindE (supabase_select_in sv ''journals'' ''doi,title,authors'' ''doi'' doi_set) (\<lambda>records.
     bindE (py_iter records) (\<lambda>rs.
     bindE (search_records_dict rs []) (\<lambda>records_dict.
     search_docs_list sv records_dict matches [])))))))"

section \<open>Notions used to state the properties\<close>

text \<open>
  The metadata record a match is joined to, in each pipeline: the ESG tool
  looks the \<^verbatim>\<open>rec_id\<close> of the match's metadata up, the academic
  function the DOI cut out of the match's identifier.  A match is kept when
  its record is found and is truthy.
\<close>

definition run_record_of :: "pydict \<Rightarrow> vmatch \<Rightarrow> pyval option" where
  "run_record_of records_dict doc =
     (case map_of (m_metadata doc) ''rec_id'' of
        None \<Rightarrow> None
      | Some k \<Rightarrow> dict_find records_dict k)"

definition run_kept :: "pydict \<Rightarrow> vmatch \<Rightarrow> bool" where
  "run_kept records_dict doc =
     (case run_record_of records_dict doc of None \<Rightarrow> False | Some r \<Rightarrow> py_truthy r)"

definition search_record_of :: "pydict \<Rightarrow> vmatch \<Rightarrow> pyval option" where
  "search_record_of records_dict doc = dict_find records_dict (PStr (doi_of (m_id doc)))"

definition search_kept :: "pydict \<Rightarrow> vmatch \<Rightarrow> bool" where
  "search_kept records_dict doc =
     (case search_record_of records_dict doc of None \<Rightarrow> False | Some r \<Rightarrow> py_truthy r)"

text \<open>What one iteration of a join loop appends to \<^verbatim>\<open>docs_list\<close>.\<close>

definition run_step :: "(pyval \<Rightarrow> string) \<Rightarrow> pydict \<Rightarrow> vmatch \<Rightarrow> error + entry list" where
  "run_step str records_dict doc =
     bindE (dict_getitem (m_metadata doc) ''rec_id'') (\<lambda>id.
     bindE (dict_get records_dict id (PDict [])) (\<lambda>record.
     if py_truthy record then bindE (run_entry str record doc) (\<lambda>e. Inr [e]) else Inr []))"

definition search_step :: "services \<Rightarrow> pydict \<Rightarrow> vmatch \<Rightarrow> error + entry list" where
  "search_step sv records_dict doc =
     (let doi = doi_of (m_id doc) in
      bindE (dict_get records_dict (PStr doi) (PDict [])) (\<lambda>record.
      if py_truthy record then bindE (search_entry sv doi record doc) (\<lambda>e. Inr [e]) else Inr []))"

text \<open>
  Modelled from the spec: the filter contract of the external vector index,
  which is not part of the sources.  A search restricted by a
  set-membership filter on a metadata field returns only matches whose
  field is one of the listed values; a search without filter is not
  restricted.
\<close>

fun satisfies_filter :: "pyval \<Rightarrow> vmatch \<Rightarrow> bool" where
  "satisfies_filter (PDict [(field, PDict [(op, PList vs)])]) m =
     (if op = ''$in''
      then (case map_of (m_metadata m) field of None \<Rightarrow> False | Some v \<Rightarrow> list_ex (key_eq v) vs)
      else True)"
| "satisfies_filter f m = True"

section \<open>Test data\<close>

text \<open>
  The fixtures of the specification's testable properties, completed to
  whole matches and records, and one match per pipeline that has no record.
\<close>

definition esg_record :: pyval where
  "esg_record = PDict [(''id'', PStr ''abc123''), (''company_short_name'', PStr ''ACME''),
                       (''report_title'', PStr ''Impact Report''),
                       (''publication_date'', PStr ''2023-05-04T00:00:00Z'')]"

definition esg_match :: vmatch where
  "esg_match = \<lparr>m_id = ''abc123-p3-0'',
                 m_metadata = [(''rec_id'', PStr ''abc123''), (''page_number'', PFloat 3),
                               (''text'', PStr ''Scope 1 emissions fell.'')]\<rparr>"

definition esg_orphan :: vmatch where
  "esg_orphan = \<lparr>m_id = ''zzz999-p1-0'',
                  m_metadata = [(''rec_id'', PStr ''zzz999''), (''page_number'', PFloat 1),
                                (''text'', PStr ''No report on file.'')]\<rparr>"

definition sci_record :: pyval where
  "sci_record = PDict [(''doi'', PStr ''10.1000/xyz''), (''title'', PStr ''On Soil''),
                       (''authors'', PList [PStr ''A. Ng'', PStr ''B. Ito''])]"

definition sci_match :: vmatch where
  "sci_match = \<lparr>m_id = ''10.1000/xyz_0'',
                 m_metadata = [(''date'', PInt 1683158400), (''journal'', PStr ''Geoderma''),
                               (''text'', PStr ''Carbon is stored in soil.'')]\<rparr>"

definition sci_orphan :: vmatch where
  "sci_orphan = \<lparr>m_id = ''preprint7'',
                  m_metadata = [(''date'', PInt 0), (''journal'', PStr ''None''),
                                (''text'', PStr ''Unpublished.'')]\<rparr>"

text \<open>A stand-in for \<^verbatim>\<open>str\<close> on values that are not strings.\<close>

definition plain_str :: "pyval \<Rightarrow> string" where
  "plain_str v = (case v of PList [] \<Rightarrow> ''[]'' | PNone \<Rightarrow> ''None'' | _ \<Rightarrow> ''...'')"

text \<open>A configuration and services that answer with the fixtures.\<close>

definition fixture_config :: config where
  "fixture_config = \<lparr>OPENAI_EMBEDDING_MODEL_V3 = ''text-embedding-3-small'',
                      PINECONE_NAMESPACE_ESG = ''esg'', PINECONE_NAMESPACE_SCI = ''sci''\<rparr>"

definition fixture_services :: services where
  "fixture_services =
     \<lparr>embeddings_create = (\<lambda>input model. Inr [PList [PFloat 0, PFloat 1]]),
      index_query = (\<lambda>q. Inr (filter (satisfies_filter (q_filter q))
                                (if q_namespace q = ''esg'' then [esg_match, esg_orphan]
                                 else [sci_match, sci_orphan]))),
      xata_query = (\<lambda>table payload. Inr [(''records'', PList [esg_record])]),
      supabase_select_in = (\<lambda>table columns column vals. Inr (PList [sci_record])),
      fromtimestamp = (\<lambda>ts. Inr \<lparr>dt_year = 2023, dt_month = 5, dt_day = 4,
                                  dt_hour = 2, dt_minute = 0, dt_second = 0\<rparr>),
      py_str = plain_str\<rparr>"

text \<open>The same services with an index that refuses a search without filter.\<close>

definition unfiltered_down :: services where
  "unfiltered_down =
     fixture_services\<lparr>index_query :=
       (\<lambda>q. if q_filter q = PNone then Inl (ServiceError ''unfiltered'')
            else index_query fixture_services q)\<rparr>"

text \<open>The entries expected for the fixtures.\<close>

definition esg_cited :: entry where
  "esg_cited = \<lparr>content = PStr ''Scope 1 emissions fell.'',
                 source = ''ACME. Impact Report. 2023-05-04. (P3)''\<rparr>"

definition sci_cited :: entry where
  "sci_cited = \<lparr>content = PStr ''Carbon is stored in soil.'',
                 source = ''[On Soil. Geoderma. A. Ng, B. Ito. 2023-05.](https://doi.org/10.1000/xyz)''\<rparr>"

text \<open>Metadata stores that hold no record: one answers with an error message, one with an empty list.\<close>

definition empty_stores :: services where
  "empty_stores =
     fixture_services\<lparr>xata_query := (\<lambda>table payload. Inr [(''message'', PStr ''Unauthorized'')]),
                      supabase_select_in := (\<lambda>table columns column vals. Inr (PList []))\<rparr>"




section \<open>The sequencing of errors\<close>

lemma bindE_Inl [simp]: "bindE (Inl e) f = Inl e"
  by (simp add: bindE_def)

lemma bindE_Inr [simp]: "bindE (Inr x) f = f x"
  by (simp add: bindE_def)

lemma bindE_eq_Inr: "bindE m f = Inr y \<longleftrightarrow> (\<exists>x. m = Inr x \<and> f x = Inr y)"
  by (cases m) simp_all

section \<open>Printing and reading decimal digits\<close>

lemma digit_val_less: "digit_val c < 10"
  by (auto simp: digit_val_def is_digit_def)

lemma digit_char_val: "is_digit c \<Longrightarrow> digit_char (digit_val c) = c"
  by (auto simp: digit_val_def is_digit_def digit_char_def)

lemma digits_val_snoc: "digits_val (ds @ [c]) = 10 * digits_val ds + digit_val c"
  by (simp add: digits_val_def)

lemma str_nat_digit: "d < 10 \<Longrightarrow> str_nat d = [digit_char d]"
  by (subst str_nat.simps) simp

lemma str_nat_snoc:
  assumes "d < 10" and "0 < n"
  shows "str_nat (10 * n + d) = str_nat n @ [digit_char d]"
proof -
  from assms have "\<not> 10 * n + d < 10" by simp
  moreover from assms have "(10 * n + d) div 10 = n" and "(10 * n + d) mod 10 = d" by simp_all
  ultimately show ?thesis by (subst str_nat.simps) simp
qed

text \<open>A string of digits is its number printed, behind some zeros.\<close>

lemma digits_are_padding:
  assumes "list_all is_digit ds" and "ds \<noteq> []"
  shows "\<exists>k. ds = replicate k (CHR ''0'') @ str_nat (digits_val ds)"
  using assms
proof (induction ds rule: rev_induct)
  case Nil
  then show ?case by simp
next
  case (snoc c xs)
  then have c: "is_digit c" and xs: "list_all is_digit xs" by simp_all
  show ?case
  proof (cases "xs = []")
    case True
    then have "digits_val (xs @ [c]) = digit_val c" by (simp add: digits_val_def)
    with True c show ?thesis
      by (simp add: str_nat_digit digit_val_less digit_char_val)
  next
    case False
    from snoc.IH [OF xs False] obtain k where k: "xs = replicate k (CHR ''0'') @ str_nat (digits_val xs)"
      by blast
    show ?thesis
    proof (cases "digits_val xs = 0")
      case True
      then have "str_nat (digits_val xs) = [CHR ''0'']"
        by (simp add: str_nat_digit digit_char_def)
      with k have "xs = replicate (Suc k) (CHR ''0'')"
        by (simp add: replicate_append_same)
      moreover have "str_nat (digits_val (xs @ [c])) = [c]"
        using True c by (simp add: digits_val_snoc str_nat_digit digit_val_less digit_char_val)
      ultimately have "xs @ [c] = replicate (Suc k) (CHR ''0'') @ str_nat (digits_val (xs @ [c]))"
        by simp
      then show ?thesis by blast
    next
      case False
      then have "str_nat (digits_val (xs @ [c])) = str_nat (digits_val xs) @ [c]"
        using c by (simp add: digits_val_snoc str_nat_snoc digit_val_less digit_char_val)
      with k have "xs @ [c] = replicate k (CHR ''0'') @ str_nat (digits_val (xs @ [c]))"
        by simp
      then show ?thesis by blast
    qed
  qed
qed

lemma zero_pad_digits:
  assumes "list_all is_digit ds" and "ds \<noteq> []"
  shows "zero_pad (length ds) (str_nat (digits_val ds)) = ds"
proof -
  from digits_are_padding [OF assms] obtain k where
    k: "ds = replicate k (CHR ''0'') @ str_nat (digits_val ds)" by blast
  then have "length ds = k + length (str_nat (digits_val ds))"
    by (metis length_append length_replicate)
  then have "zero_pad (length ds) (str_nat (digits_val ds))
               = replicate k (CHR ''0'') @ str_nat (digits_val ds)"
    by (simp add: zero_pad_def)
  with k show ?thesis by simp
qed

section \<open>What the date expression captures\<close>

lemma cls1_D: "(x, r) \<in> set (cls1 p s) \<Longrightarrow> \<exists>a. x = [a] \<and> p a \<and> s = a # r"
  by (auto simp: cls1_def split: list.splits if_splits)

lemma cls2_D: "(x, r) \<in> set (cls2 p q s) \<Longrightarrow> \<exists>a b. x = [a, b] \<and> p a \<and> q b \<and> s = a # b # r"
  by (auto simp: cls2_def split: list.splits if_splits)

lemma re_lit_D: "r \<in> set (re_lit cs s) \<Longrightarrow> \<exists>c\<in>set cs. s = c # r"
  by (auto simp: re_lit_def split: list.splits if_splits)

lemma in_range_digit: "in_range lo hi c \<Longrightarrow> is_digit c"
  by (simp add: in_range_def)

lemma re_Y_D:
  "(Y, r) \<in> set (re_Y s) \<Longrightarrow> s = Y @ r \<and> length Y = 4 \<and> list_all is_digit Y"
  by (auto simp: re_Y_def split: list.splits if_splits)

lemma re_m_D:
  "(m, r) \<in> set (re_m s) \<Longrightarrow> s = m @ r \<and> length m \<in> {1, 2} \<and> list_all is_digit m"
  by (auto simp: re_m_def is_digit_def dest!: cls1_D cls2_D in_range_digit)

lemma re_d_D:
  "(d, r) \<in> set (re_d s) \<Longrightarrow>
   s = d @ r \<and> length d \<in> {1, 2} \<and> (list_all is_digit d \<or> hd d = CHR '' '')"
  by (auto simp: re_d_def is_digit_def dest!: cls1_D cls2_D in_range_digit)

lemma re_H_D: "(H, r) \<in> set (re_H s) \<Longrightarrow> s = H @ r \<and> length H \<in> {1, 2}"
  by (auto simp: re_H_def dest!: cls1_D cls2_D)

lemma re_M_D: "(M, r) \<in> set (re_M s) \<Longrightarrow> s = M @ r \<and> length M \<in> {1, 2}"
  by (auto simp: re_M_def dest!: cls1_D cls2_D)

lemma re_S_D: "(S, r) \<in> set (re_S s) \<Longrightarrow> s = S @ r \<and> length S \<in> {1, 2}"
  by (auto simp: re_S_def dest!: cls1_D cls2_D)

lemma iso_matches_D:
  assumes "((Y, m, d, H, M, S), rest) \<in> set (iso_matches s)"
  shows "\<exists>t z. s = Y @ ''-'' @ m @ ''-'' @ d @ [t] @ H @ '':'' @ M @ '':'' @ S @ [z] @ rest
         \<and> length Y = 4 \<and> list_all is_digit Y
         \<and> length m \<in> {1, 2} \<and> list_all is_digit m
         \<and> length d \<in> {1, 2} \<and> (list_all is_digit d \<or> hd d = CHR '' '')
         \<and> length H \<in> {1, 2} \<and> length M \<in> {1, 2} \<and> length S \<in> {1, 2}"
proof -
  from assms obtain r1 r2 r3 r4 r5 r6 r7 r8 r9 r10 r11 where
    Y: "(Y, r1) \<in> set (re_Y s)" and l1: "r2 \<in> set (re_lit ''-'' r1)"
    and m: "(m, r3) \<in> set (re_m r2)" and l2: "r4 \<in> set (re_lit ''-'' r3)"
    and d: "(d, r5) \<in> set (re_d r4)" and l3: "r6 \<in> set (re_lit ''Tt'' r5)"
    and H: "(H, r7) \<in> set (re_H r6)" and l4: "r8 \<in> set (re_lit '':'' r7)"
    and M: "(M, r9) \<in> set (re_M r8)" and l5: "r10 \<in> set (re_lit '':'' r9)"
    and S: "(S, r11) \<in> set (re_S r10)" and l6: "rest \<in> set (re_lit ''Zz'' r11)"
    unfolding iso_matches_def by auto
  from re_lit_D [OF l1] have e1: "r1 = CHR ''-'' # r2" by simp
  from re_lit_D [OF l2] have e2: "r3 = CHR ''-'' # r4" by simp
  from re_lit_D [OF l3] obtain t where e3: "r5 = t # r6" by blast
  from re_lit_D [OF l4] have e4: "r7 = CHR '':'' # r8" by simp
  from re_lit_D [OF l5] have e5: "r9 = CHR '':'' # r10" by simp
  from re_lit_D [OF l6] obtain z where e6: "r11 = z # rest" by blast
  from re_Y_D [OF Y] re_m_D [OF m] re_d_D [OF d] re_H_D [OF H] re_M_D [OF M] re_S_D [OF S]
    e1 e2 e3 e4 e5 e6
  show ?thesis by auto
qed

lemma strptime_iso_Inr_D:
  assumes "strptime_iso v = Inr date"
  shows "\<exists>s Y m d H M S ms. v = PStr s
           \<and> iso_matches s = ((Y, m, d, H, M, S), []) # ms
           \<and> dt_year date = digits_val Y \<and> dt_month date = digits_val m
           \<and> dt_day date = digits_val (dropWhile is_space d)
           \<and> 0 < dt_year date"
  using assms
  by (auto simp: strptime_iso_def Let_def split: pyval.splits list.splits prod.splits if_splits)


lemma digit_not_space: "is_digit c \<Longrightarrow> \<not> is_space c"
  by (auto simp: is_digit_def is_space_def)

text \<open>A number above zero is printed without a leading zero.\<close>

lemma str_nat_nonempty: "str_nat n \<noteq> []"
  by (subst str_nat.simps) simp

lemma digit_char_pos:
  assumes "0 < n" and "n < 10"
  shows "digit_char n \<noteq> CHR ''0''"
proof -
  from assms have "n \<in> {1, 2, 3, 4, 5, 6, 7, 8, 9}" by auto
  then show ?thesis by (auto simp: digit_char_def)
qed

lemma str_nat_hd: "0 < n \<Longrightarrow> hd (str_nat n) \<noteq> CHR ''0''"
proof (induction n rule: str_nat.induct)
  case (1 n)
  show ?case
  proof (cases "n < 10")
    case True
    with 1(2) have "digit_char n \<noteq> CHR ''0''" by (simp add: digit_char_pos)
    with True show ?thesis by (subst str_nat.simps) simp
  next
    case False
    then have "0 < n div 10" by simp
    with 1(1) False have "hd (str_nat (n div 10)) \<noteq> CHR ''0''" by simp
    with False show ?thesis
      by (subst str_nat.simps) (simp add: str_nat_nonempty)
  qed
qed

lemma str_nat_digits:
  assumes "list_all is_digit ds" and "0 < digits_val ds"
  shows "str_nat (digits_val ds) = dropWhile (\<lambda>c. c = CHR ''0'') ds"
proof -
  from assms(2) have "ds \<noteq> []" by (auto simp: digits_val_def)
  from digits_are_padding [OF assms(1) this] obtain k where
    k: "ds = replicate k (CHR ''0'') @ str_nat (digits_val ds)" by blast
  let ?p = "str_nat (digits_val ds)"
  from str_nat_hd [OF assms(2)] str_nat_nonempty [of "digits_val ds"]
  have "dropWhile (\<lambda>c. c = CHR ''0'') ?p = ?p" by (cases ?p) simp_all
  then have "dropWhile (\<lambda>c. c = CHR ''0'') (replicate k (CHR ''0'') @ ?p) = ?p"
    by (induction k) simp_all
  with k show ?thesis by simp
qed

text \<open>
  A timestamp of twenty characters, as the metadata store writes it, is
  printed as its first ten characters without the zeros the year begins
  with; it keeps its first ten characters when the year has four digits.
\<close>

lemma strftime_Ymd_strptime_iso:
  assumes parsed: "strptime_iso (PStr s) = Inr date"
    and len: "length s = 20" and day: "s ! 8 \<noteq> CHR '' ''"
  shows "strftime_Ymd date = dropWhile (\<lambda>c. c = CHR ''0'') (take 10 s)"
proof -
  from strptime_iso_Inr_D [OF parsed] obtain Y m d H M S ms where
    hit: "iso_matches s = ((Y, m, d, H, M, S), []) # ms"
    and fields: "dt_year date = digits_val Y" "dt_month date = digits_val m"
      "dt_day date = digits_val (dropWhile is_space d)"
    and year: "0 < dt_year date"
    by auto
  then have "((Y, m, d, H, M, S), []) \<in> set (iso_matches s)" by simp
  from iso_matches_D [OF this] obtain t z where
    s: "s = Y @ ''-'' @ m @ ''-'' @ d @ [t] @ H @ '':'' @ M @ '':'' @ S @ [z] @ []"
    and Y: "length Y = 4" "list_all is_digit Y"
    and m: "length m \<in> {1, 2}" "list_all is_digit m"
    and d: "length d \<in> {1, 2}" "list_all is_digit d \<or> hd d = CHR '' ''"
    and rest: "length H \<in> {1, 2}" "length M \<in> {1, 2}" "length S \<in> {1, 2}"
    by blast
  have "length s = 10 + length m + length d + length H + length M + length S"
    by (subst s) (simp add: Y)
  with len m(1) d(1) rest have lm: "length m = 2" and ld: "length d = 2" by auto
  have front: "take 10 s = Y @ ''-'' @ m @ ''-'' @ d"
    by (subst s) (simp add: Y lm ld)
  from ld obtain d1 d2 where d12: "d = [d1, d2]"
    by (cases d) (auto simp: length_Suc_conv)
  have "s ! 8 = d1"
    by (subst s) (simp add: d12 nth_append Y lm)
  with day d(2) d12 have dd: "list_all is_digit d" by auto
  then have "\<not> is_space d1" using d12 by (simp add: digit_not_space)
  then have nd: "dropWhile is_space d = d" using d12 by simp
  from lm have mn: "m \<noteq> []" by auto
  from ld have dn: "d \<noteq> []" by auto
  from year fields(1) have Ypos: "0 < digits_val Y" by simp
  have Yp: "str_nat (digits_val Y) = dropWhile (\<lambda>c. c = CHR ''0'') Y"
    using str_nat_digits [OF Y(2) Ypos] .
  from str_nat_nonempty [of "digits_val Y"] Yp
  have "dropWhile (\<lambda>c. c = CHR ''0'') Y \<noteq> []" by simp
  then obtain y where "y \<in> set Y" and "y \<noteq> CHR ''0''"
    by (auto simp: dropWhile_eq_Nil_conv)
  then have strip: "dropWhile (\<lambda>c. c = CHR ''0'') (Y @ tail)
                      = dropWhile (\<lambda>c. c = CHR ''0'') Y @ tail" for tail
    by (simp add: dropWhile_append1)
  have "zero_pad 2 (str_nat (digits_val m)) = m"
    using zero_pad_digits [OF m(2) mn] by (simp add: lm)
  moreover have "zero_pad 2 (str_nat (digits_val d)) = d"
    using zero_pad_digits [OF dd dn] by (simp add: ld)
  ultimately show ?thesis
    by (simp only: strftime_Ymd_def fields nd front strip Yp)
qed

section \<open>Keys and lists of strings\<close>

text \<open>A string key is found under that very string and under nothing else.\<close>

lemma key_eq_PStr [simp]: "key_eq k (PStr s) \<longleftrightarrow> k = PStr s"
  by (cases k) (auto simp: key_eq_def)

lemma dict_find_PStr: "dict_find rd (PStr s) = Some r \<Longrightarrow> (PStr s, r) \<in> set rd"
  by (induction rd) (auto split: if_splits)

lemma dict_find_PStr_None: "dict_find rd (PStr s) = None \<longleftrightarrow> (\<forall>r. (PStr s, r) \<notin> set rd)"
  by (induction rd) (auto split: if_splits)

lemma list_ex_key_eq_PStr:
  "list_ex (key_eq v) (map PStr ids) \<longleftrightarrow> (\<exists>i\<in>set ids. v = PStr i)"
  by (induction ids) (auto simp: key_eq_def split: option.splits)

text \<open>The DOI of an identifier is what precedes its last underscore.\<close>

lemma doi_of_no_sep: "CHR ''_'' \<notin> set s \<Longrightarrow> doi_of s = []"
  by (simp add: doi_of_def rpartition_def)


lemma the_strs_map: "the_strs (map PStr ss) = Inr ss"
  by (induction ss) simp_all

lemma str_join_strs: "str_join sep (PList (map PStr ss)) = Inr (intercalate sep ss)"
  by (simp add: str_join_def the_strs_map)

lemma list_all2_witness_left:
  "list_all2 P xs ys \<Longrightarrow> y \<in> set ys \<Longrightarrow> \<exists>x\<in>set xs. P x y"
  by (induction rule: list_all2_induct) auto

section \<open>The join loop of the ESG tool\<close>

lemma run_docs_list_step:
  "run_docs_list str rd (doc # docs) acc =
     bindE (run_step str rd doc) (\<lambda>es. run_docs_list str rd docs (acc @ es))"
  by (simp add: run_step_def bindE_def split: sum.splits)

text \<open>The loop only ever appends to the list it started with.\<close>

lemma run_docs_list_acc:
  "run_docs_list str rd docs acc = bindE (run_docs_list str rd docs []) (\<lambda>out. Inr (acc @ out))"
proof (induction docs arbitrary: acc)
  case Nil
  show ?case by simp
next
  case (Cons doc docs)
  show ?case
  proof (cases "run_step str rd doc")
    case (Inl e)
    then show ?thesis by (simp only: run_docs_list_step bindE_Inl)
  next
    case (Inr es)
    have "run_docs_list str rd (doc # docs) acc = run_docs_list str rd docs (acc @ es)"
      by (simp only: run_docs_list_step Inr bindE_Inr)
    also have "\<dots> = bindE (run_docs_list str rd docs []) (\<lambda>out. Inr ((acc @ es) @ out))"
      by (rule Cons.IH)
    also have "\<dots> = bindE (bindE (run_docs_list str rd docs []) (\<lambda>out. Inr (es @ out)))
                        (\<lambda>out. Inr (acc @ out))"
      by (cases "run_docs_list str rd docs []") simp_all
    also have "bindE (run_docs_list str rd docs []) (\<lambda>out. Inr (es @ out))
                 = run_docs_list str rd docs ([] @ es)"
      using Cons.IH [of es] by simp
    also have "\<dots> = run_docs_list str rd (doc # docs) []"
      by (simp only: run_docs_list_step Inr bindE_Inr)
    finally show ?thesis .
  qed
qed


lemma run_step_cases:
  "run_step str rd doc =
     (case map_of (m_metadata doc) ''rec_id'' of
        None \<Rightarrow> Inl KeyError
      | Some k \<Rightarrow>
          if \<not> py_hashable k then Inl TypeError
          else (case dict_find rd k of
                  None \<Rightarrow> Inr []
                | Some r \<Rightarrow>
                    if py_truthy r then bindE (run_entry str r doc) (\<lambda>e. Inr [e]) else Inr []))"
  by (simp add: run_step_def dict_getitem_def dict_get_def split: option.splits)

lemma run_step_Inr:
  assumes "run_step str rd doc = Inr es"
  shows "if run_kept rd doc
         then \<exists>r e. run_record_of rd doc = Some r \<and> run_entry str r doc = Inr e \<and> es = [e]
         else es = []"
  using assms
  by (auto simp: run_step_cases run_kept_def run_record_of_def bindE_eq_Inr
           split: option.splits if_splits)

text \<open>One iteration of each join loop, by the record found under the key.\<close>

lemma run_docs_list_found:
  assumes "map_of (m_metadata doc) ''rec_id'' = Some k" "py_hashable k"
  shows "run_docs_list str rd (doc # docs) acc =
     (case dict_find rd k of
        None \<Rightarrow> run_docs_list str rd docs acc
      | Some r \<Rightarrow>
          if py_truthy r
          then bindE (run_entry str r doc) (\<lambda>e. run_docs_list str rd docs (acc @ [e]))
          else run_docs_list str rd docs acc)"
  using assms by (simp add: dict_getitem_def dict_get_def split: option.splits)

lemma run_docs_list_Inr:
  "run_docs_list str rd docs [] = Inr out \<Longrightarrow>
   list_all2 (\<lambda>doc e. \<exists>r. run_record_of rd doc = Some r \<and> run_entry str r doc = Inr e)
     (filter (run_kept rd) docs) out"
proof (induction docs arbitrary: out)
  case Nil
  then show ?case by simp
next
  case (Cons doc docs)
  from Cons.prems obtain es where es: "run_step str rd doc = Inr es"
    and rest: "run_docs_list str rd docs ([] @ es) = Inr out"
    by (auto simp: run_docs_list_step bindE_eq_Inr simp del: run_docs_list.simps)
  from rest obtain out' where out': "run_docs_list str rd docs [] = Inr out'"
    and out: "out = es @ out'"
    using run_docs_list_acc [of str rd docs es] by (auto simp: bindE_eq_Inr)
  note IH = Cons.IH [OF out']
  show ?case
  proof (cases "run_kept rd doc")
    case True
    with run_step_Inr [OF es] obtain r e where
      "run_record_of rd doc = Some r" "run_entry str r doc = Inr e" "es = [e]" by auto
    with True IH out show ?thesis by simp
  next
    case False
    with run_step_Inr [OF es] have "es = []" by simp
    with False IH out show ?thesis by simp
  qed
qed

lemma run_docs_list_length:
  "run_docs_list str rd docs [] = Inr out \<Longrightarrow> length out = length (filter (run_kept rd) docs)"
  by (drule run_docs_list_Inr) (simp add: list_all2_lengthD)

lemma run_docs_list_sources:
  assumes "run_docs_list str rd docs [] = Inr out" and "e \<in> set out"
  shows "\<exists>doc\<in>set docs. \<exists>r. run_record_of rd doc = Some r \<and> run_entry str r doc = Inr e"
proof -
  from list_all2_witness_left [OF run_docs_list_Inr [OF assms(1)] assms(2)]
  show ?thesis by auto
qed

text \<open>
  The first loop has read and hashed the \<^verbatim>\<open>rec_id\<close> of every match
  before the metadata store is asked.
\<close>

lemma run_id_set_Inr:
  "run_id_set docs s = Inr s' \<Longrightarrow>
   \<forall>doc\<in>set docs. \<exists>k. map_of (m_metadata doc) ''rec_id'' = Some k \<and> py_hashable k"
proof (induction docs arbitrary: s)
  case Nil
  then show ?case by simp
next
  case (Cons doc docs)
  then show ?case
    by (auto simp: bindE_eq_Inr dict_getitem_def set_add_def split: option.splits if_splits)
qed

lemma run_docs_list_no_records:
  "\<forall>doc\<in>set docs. \<exists>k. map_of (m_metadata doc) ''rec_id'' = Some k \<and> py_hashable k \<Longrightarrow>
   run_docs_list str [] docs acc = Inr acc"
proof (induction docs)
  case Nil
  show ?case by simp
next
  case (Cons doc docs)
  then show ?case by (auto simp: dict_getitem_def dict_get_def)
qed





section \<open>The join loop of the academic function\<close>

lemma search_docs_list_step:
  "search_docs_list sv rd (doc # docs) acc =
     bindE (search_step sv rd doc) (\<lambda>es. search_docs_list sv rd docs (acc @ es))"
  by (simp add: search_step_def Let_def bindE_def split: sum.splits)

lemma search_docs_list_acc:
  "search_docs_list sv rd docs acc =
     bindE (search_docs_list sv rd docs []) (\<lambda>out. Inr (acc @ out))"
proof (induction docs arbitrary: acc)
  case Nil
  show ?case by simp
next
  case (Cons doc docs)
  show ?case
  proof (cases "search_step sv rd doc")
    case (Inl e)
    then show ?thesis by (simp only: search_docs_list_step bindE_Inl)
  next
    case (Inr es)
    have "search_docs_list sv rd (doc # docs) acc = search_docs_list sv rd docs (acc @ es)"
      by (simp only: search_docs_list_step Inr bindE_Inr)
    also have "\<dots> = bindE (search_docs_list sv rd docs []) (\<lambda>out. Inr ((acc @ es) @ out))"
      by (rule Cons.IH)
    also have "\<dots> = bindE (bindE (search_docs_list sv rd docs []) (\<lambda>out. Inr (es @ out)))
                        (\<lambda>out. Inr (acc @ out))"
      by (cases "search_docs_list sv rd docs []") simp_all
    also have "bindE (search_docs_list sv rd docs []) (\<lambda>out. Inr (es @ out))
                 = search_docs_list sv rd docs ([] @ es)"
      using Cons.IH [of es] by simp
    also have "\<dots> = search_docs_list sv rd (doc # docs) []"
      by (simp only: search_docs_list_step Inr bindE_Inr)
    finally show ?thesis .
  qed
qed

lemma search_step_cases:
  "search_step sv rd doc =
     (case dict_find rd (PStr (doi_of (m_id doc))) of
        None \<Rightarrow> Inr []
      | Some r \<Rightarrow>
          if py_truthy r
          then bindE (search_entry sv (doi_of (m_id doc)) r doc) (\<lambda>e. Inr [e])
          else Inr [])"
  by (simp add: search_step_def dict_get_def Let_def split: option.splits)

lemma search_step_Inr:
  assumes "search_step sv rd doc = Inr es"
  shows "if search_kept rd doc
         then \<exists>r e. search_record_of rd doc = Some r
                   \<and> search_entry sv (doi_of (m_id doc)) r doc = Inr e \<and> es = [e]
         else es = []"
  using assms
  by (auto simp: search_step_cases search_kept_def search_record_of_def bindE_eq_Inr
           split: option.splits if_splits)

lemma search_docs_list_found:
  "search_docs_list sv rd (doc # docs) acc =
     (case dict_find rd (PStr (doi_of (m_id doc))) of
        None \<Rightarrow> search_docs_list sv rd docs acc
      | Some r \<Rightarrow>
          if py_truthy r
          then bindE (search_entry sv (doi_of (m_id doc)) r doc)
                 (\<lambda>e. search_docs_list sv rd docs (acc @ [e]))
          else search_docs_list sv rd docs acc)"
  by (simp add: dict_get_def Let_def split: option.splits)

lemma search_docs_list_Inr:
  "search_docs_list sv rd docs [] = Inr out \<Longrightarrow>
   list_all2 (\<lambda>doc e. \<exists>r. search_record_of rd doc = Some r
                         \<and> search_entry sv (doi_of (m_id doc)) r doc = Inr e)
     (filter (search_kept rd) docs) out"
proof (induction docs arbitrary: out)
  case Nil
  then show ?case by simp
next
  case (Cons doc docs)
  from Cons.prems obtain es where es: "search_step sv rd doc = Inr es"
    and rest: "search_docs_list sv rd docs ([] @ es) = Inr out"
    by (auto simp: search_docs_list_step bindE_eq_Inr simp del: search_docs_list.simps)
  from rest obtain out' where out': "search_docs_list sv rd docs [] = Inr out'"
    and out: "out = es @ out'"
    using search_docs_list_acc [of sv rd docs es] by (auto simp: bindE_eq_Inr)
  note IH = Cons.IH [OF out']
  show ?case
  proof (cases "search_kept rd doc")
    case True
    with search_step_Inr [OF es] obtain r e where
      "search_record_of rd doc = Some r" "search_entry sv (doi_of (m_id doc)) r doc = Inr e"
      "es = [e]" by auto
    with True IH out show ?thesis by simp
  next
    case False
    with search_step_Inr [OF es] have "es = []" by simp
    with False IH out show ?thesis by simp
  qed
qed

lemma search_docs_list_length:
  "search_docs_list sv rd docs [] = Inr out \<Longrightarrow>
   length out = length (filter (search_kept rd) docs)"
  by (drule search_docs_list_Inr) (simp add: list_all2_lengthD)

lemma search_docs_list_sources:
  assumes "search_docs_list sv rd docs [] = Inr out" and "e \<in> set out"
  shows "\<exists>doc\<in>set docs. \<exists>r. search_record_of rd doc = Some r
                          \<and> search_entry sv (doi_of (m_id doc)) r doc = Inr e"
proof -
  from list_all2_witness_left [OF search_docs_list_Inr [OF assms(1)] assms(2)]
  show ?thesis by auto
qed

lemma search_doi_set_total: "\<exists>s'. search_doi_set docs s = Inr s'"
  by (induction docs arbitrary: s) (auto simp: set_add_def)

lemma search_docs_list_no_records: "search_docs_list sv [] docs acc = Inr acc"
  by (induction docs) (auto simp: dict_get_def)

section \<open>The pipelines, stage by stage\<close>

text \<open>A result of the tool comes from a result of every stage.\<close>

lemma SearchESG_run_Inr:
  assumes "SearchESG_run cfg sv query top_k doc_ids = Inr s"
  shows "\<exists>v matches id_set xata_response records rd docs_list.
           index_query sv (run_query cfg v top_k doc_ids) = Inr matches
         \<and> run_id_set matches [] = Inr id_set
         \<and> xata_query sv ''ESG'' (run_payload id_set) = Inr xata_response
         \<and> py_iter (run_records xata_response) = Inr records
         \<and> run_records_dict records [] = Inr rd
         \<and> run_docs_list (py_str sv) rd matches [] = Inr docs_list
         \<and> s = py_str sv (PList (map entry_dict docs_list))"
  using assms unfolding SearchESG_run_def bindE_eq_Inr by blast

lemma search_Inr:
  assumes "search cfg sv query top_k = Inr out"
  shows "\<exists>v matches doi_set records rs rd.
           index_query sv (search_query cfg v top_k) = Inr matches
         \<and> search_doi_set matches [] = Inr doi_set
         \<and> supabase_select_in sv ''journals'' ''doi,title,authors'' ''doi'' doi_set = Inr records
         \<and> py_iter records = Inr rs
         \<and> search_records_dict rs [] = Inr rd
         \<and> search_docs_list sv rd matches [] = Inr out"
  using assms unfolding search_def bindE_eq_Inr by blast

lemma SearchESG_run_join:
  assumes "embeddings_create sv query (OPENAI_EMBEDDING_MODEL_V3 cfg) = Inr data"
    and "first_item data = Inr v"
    and "index_query sv (run_query cfg v top_k doc_ids) = Inr matches"
    and "run_id_set matches [] = Inr id_set"
    and "xata_query sv ''ESG'' (run_payload id_set) = Inr xata_response"
    and "py_iter (run_records xata_response) = Inr records"
    and "run_records_dict records [] = Inr rd"
  shows "SearchESG_run cfg sv query top_k doc_ids =
           bindE (run_docs_list (py_str sv) rd matches [])
             (\<lambda>docs_list. Inr (py_str sv (PList (map entry_dict docs_list))))"
  using assms by (simp add: SearchESG_run_def)

text \<open>A metadata store that returns no record leaves nothing to emit.\<close>

lemma SearchESG_run_no_records:
  assumes "embeddings_create sv query (OPENAI_EMBEDDING_MODEL_V3 cfg) = Inr data"
    and "first_item data = Inr v"
    and "index_query sv (run_query cfg v top_k doc_ids) = Inr matches"
    and "run_id_set matches [] = Inr id_set"
    and "xata_query sv ''ESG'' (run_payload id_set) = Inr xata_response"
    and "py_iter (run_records xata_response) = Inr []"
  shows "SearchESG_run cfg sv query top_k doc_ids = Inr (py_str sv (PList []))"
proof -
  from run_id_set_Inr [OF assms(4)]
  have "run_docs_list (py_str sv) [] matches [] = Inr []"
    by (rule run_docs_list_no_records)
  with assms show ?thesis by (simp add: SearchESG_run_def)
qed

lemma search_no_records:
  assumes "embeddings_create sv query (OPENAI_EMBEDDING_MODEL_V3 cfg) = Inr data"
    and "first_item data = Inr v"
    and "index_query sv (search_query cfg v top_k) = Inr matches"
    and "search_doi_set matches [] = Inr doi_set"
    and "supabase_select_in sv ''journals'' ''doi,title,authors'' ''doi'' doi_set = Inr records"
    and "py_iter records = Inr []"
  shows "search cfg sv query top_k = Inr []"
  using assms by (simp add: search_def search_docs_list_no_records)

lemma run_filter_Some:
  "ids \<noteq> [] \<Longrightarrow> run_filter (Some ids) = PDict [(''rec_id'', PDict [(''$in'', PList (map PStr ids))])]"
  by (simp add: run_filter_def)

section \<open>The fixtures, evaluated\<close>

lemma fixture_date:
  "strptime_iso (PStr ''2023-05-04T00:00:00Z'')
     = Inr \<lparr>dt_year = 2023, dt_month = 5, dt_day = 4, dt_hour = 0, dt_minute = 0, dt_second = 0\<rparr>"
  by code_simp

lemma fixture_date_formatted:
  "strftime_Ymd \<lparr>dt_year = 2023, dt_month = 5, dt_day = 4, dt_hour = 0, dt_minute = 0, dt_second = 0\<rparr>
     = ''2023-05-04''"
  by code_simp

lemma trunc_3: "trunc 3 = 3"
  by (simp add: trunc_def)

lemma format_int_3: "format_int 3 = Inr ''3''"
  by (simp add: format_int_def str_int_def str_nat.simps digit_char_def)

lemma fixture_pads:
  "str_nat 2023 = ''2023''"
  "zero_pad 2 (str_nat 5) = ''05''"
  "zero_pad 2 (str_nat 4) = ''04''"
  by code_simp+


lemma old_date:
  "strptime_iso (PStr ''0999-01-01T00:00:00Z'')
     = Inr \<lparr>dt_year = 999, dt_month = 1, dt_day = 1, dt_hour = 0, dt_minute = 0, dt_second = 0\<rparr>"
  by code_simp

lemma esg_match_rec_id: "map_of (m_metadata esg_match) ''rec_id'' = Some (PStr ''abc123'')"
  by (simp add: esg_match_def)

lemma esg_orphan_rec_id: "map_of (m_metadata esg_orphan) ''rec_id'' = Some (PStr ''zzz999'')"
  by (simp add: esg_orphan_def)

lemma esg_record_truthy: "py_truthy esg_record"
  by (simp add: esg_record_def)

lemma esg_entry_cited: "run_entry plain_str esg_record esg_match = Inr esg_cited"
  by (simp add: run_entry_def esg_record_def esg_match_def esg_cited_def dict_getitem_def
        fixture_date fixture_date_formatted trunc_3 format_int_3 py_format_def)

lemma esg_join_cited:
  "run_docs_list plain_str [(PStr ''abc123'', esg_record)] [esg_match, esg_orphan] []
     = Inr [esg_cited]"
  by (simp add: run_docs_list_found [OF esg_match_rec_id] run_docs_list_found [OF esg_orphan_rec_id]
        esg_record_truthy esg_entry_cited del: run_docs_list.simps) simp

lemma sci_match_doi: "doi_of (m_id sci_match) = ''10.1000/xyz''"
  by (simp add: sci_match_def doi_of_def rpartition_def)

lemma sci_orphan_doi: "doi_of (m_id sci_orphan) = []"
  by (simp add: sci_orphan_def doi_of_def rpartition_def)

lemma sci_record_truthy: "py_truthy sci_record"
  by (simp add: sci_record_def)

lemma sci_date_formatted:
  "strftime_Ym \<lparr>dt_year = 2023, dt_month = 5, dt_day = 4, dt_hour = 2, dt_minute = 0, dt_second = 0\<rparr>
     = ''2023-05''"
  by code_simp

lemma sci_entry_cited:
  "search_entry fixture_services ''10.1000/xyz'' sci_record sci_match = Inr sci_cited"
  by (simp add: search_entry_def sci_record_def sci_match_def sci_cited_def dict_getitem_def
        fixture_services_def sci_date_formatted py_format_def str_join_def)

lemma sci_join_cited:
  "search_docs_list fixture_services [(PStr ''10.1000/xyz'', sci_record)] [sci_match, sci_orphan] []
     = Inr [sci_cited]"
  by (simp add: search_docs_list_found sci_match_doi sci_orphan_doi sci_record_truthy
        sci_entry_cited del: search_docs_list.simps) simp

lemma esg_records_dict: "run_records_dict [esg_record] [] = Inr [(PStr ''abc123'', esg_record)]"
  by (simp add: esg_record_def dict_getitem_def dict_setitem_def)

lemma sci_records_dict:
  "search_records_dict [sci_record] [] = Inr [(PStr ''10.1000/xyz'', sci_record)]"
  by (simp add: sci_record_def dict_getitem_def dict_setitem_def)

lemma esg_id_set: "run_id_set [esg_match, esg_orphan] [] = Inr [PStr ''abc123'', PStr ''zzz999'']"
  by (simp add: dict_getitem_def esg_match_rec_id esg_orphan_rec_id set_add_def)

lemma sci_doi_set: "search_doi_set [sci_match, sci_orphan] [] = Inr [PStr ''10.1000/xyz'', PStr []]"
  by (simp add: sci_match_doi sci_orphan_doi set_add_def)

lemma fixture_run:
  "SearchESG_run fixture_config fixture_services ''emissions'' (Some 16) None = Inr ''...''"
proof -
  let ?v = "PList [PFloat 0, PFloat 1]"
  have "SearchESG_run fixture_config fixture_services ''emissions'' (Some 16) None =
          bindE (run_docs_list (py_str fixture_services) [(PStr ''abc123'', esg_record)]
                   [esg_match, esg_orphan] [])
            (\<lambda>docs_list. Inr (py_str fixture_services (PList (map entry_dict docs_list))))"
  proof (rule SearchESG_run_join [where data = "[?v]" and v = ?v
        and id_set = "[PStr ''abc123'', PStr ''zzz999'']"
        and xata_response = "[(''records'', PList [esg_record])]" and records = "[esg_record]"])
    show "embeddings_create fixture_services ''emissions'' (OPENAI_EMBEDDING_MODEL_V3 fixture_config)
            = Inr [?v]"
      by (simp add: fixture_services_def)
    show "first_item [?v] = Inr ?v" by (simp add: first_item_def)
    show "index_query fixture_services (run_query fixture_config ?v (Some 16) None)
            = Inr [esg_match, esg_orphan]"
      by (simp add: fixture_services_def fixture_config_def run_query_def run_filter_def)
    show "run_id_set [esg_match, esg_orphan] [] = Inr [PStr ''abc123'', PStr ''zzz999'']"
      by (rule esg_id_set)
    show "xata_query fixture_services ''ESG'' (run_payload [PStr ''abc123'', PStr ''zzz999''])
            = Inr [(''records'', PList [esg_record])]"
      by (simp add: fixture_services_def)
    show "py_iter (run_records [(''records'', PList [esg_record])]) = Inr [esg_record]"
      by (simp add: run_records_def)
    show "run_records_dict [esg_record] [] = Inr [(PStr ''abc123'', esg_record)]"
      by (rule esg_records_dict)
  qed
  moreover have "py_str fixture_services = plain_str" by (simp add: fixture_services_def)
  ultimately show ?thesis
    by (simp add: esg_join_cited plain_str_def entry_dict_def del: run_docs_list.simps)
qed

lemma fixture_search:
  "search fixture_config fixture_services ''soil'' (Some 16) = Inr [sci_cited]"
proof -
  have "index_query fixture_services
          (search_query fixture_config (PList [PFloat 0, PFloat 1]) (Some 16))
          = Inr [sci_match, sci_orphan]"
    by (simp add: fixture_services_def fixture_config_def search_query_def)
  moreover have "embeddings_create fixture_services ''soil''
                   (OPENAI_EMBEDDING_MODEL_V3 fixture_config) = Inr [PList [PFloat 0, PFloat 1]]"
    and "supabase_select_in fixture_services ''journals'' ''doi,title,authors'' ''doi''
           [PStr ''10.1000/xyz'', PStr []] = Inr (PList [sci_record])"
    by (simp_all add: fixture_services_def)
  ultimately show ?thesis
    by (simp add: search_def first_item_def sci_doi_set sci_records_dict sci_join_cited
          del: search_doi_set.simps search_docs_list.simps search_records_dict.simps)
qed

lemma esg_join_twice:
  "run_docs_list plain_str [(PStr ''abc123'', esg_record)] [esg_match, esg_orphan, esg_match] []
     = Inr [esg_cited, esg_cited]"
  by (simp add: run_docs_list_found [OF esg_match_rec_id] run_docs_list_found [OF esg_orphan_rec_id]
        esg_record_truthy esg_entry_cited del: run_docs_list.simps) simp

lemma esg_kept_twice:
  "filter (run_kept [(PStr ''abc123'', esg_record)]) [esg_match, esg_orphan, esg_match]
     = [esg_match, esg_match]"
  by (simp add: run_kept_def run_record_of_def esg_match_rec_id esg_orphan_rec_id esg_record_truthy)

lemma sci_join_twice:
  "search_docs_list fixture_services [(PStr ''10.1000/xyz'', sci_record)]
     [sci_orphan, sci_match, sci_match] []
     = Inr [sci_cited, sci_cited]"
  by (simp add: search_docs_list_found sci_match_doi sci_orphan_doi sci_record_truthy
        sci_entry_cited del: search_docs_list.simps) simp

section \<open>Entries and missing records\<close>

text \<open>
  Claim C1.  In both pipelines, whatever the vector search and the metadata
  store answer: the join loop emits no more entries than there are matches;
  every entry it emits comes from a match whose correlation key has a record
  in the fetched mapping; a match whose key has no record is passed over,
  the output staying as it was and nothing being raised; and when the bulk
  lookup returns no record, the ESG tool returns the printed empty list and
  the academic function the empty list.
\<close>

theorem join_drops_matches_without_record:
  "(run_docs_list str rd docs [] = Inr out \<longrightarrow>
      length out \<le> length docs
      \<and> (\<forall>e\<in>set out. \<exists>doc\<in>set docs. \<exists>r. run_record_of rd doc = Some r
                                          \<and> run_entry str r doc = Inr e))
   \<and> (search_docs_list sv rd' docs' [] = Inr out' \<longrightarrow>
      length out' \<le> length docs'
      \<and> (\<forall>e\<in>set out'. \<exists>doc\<in>set docs'. \<exists>r. search_record_of rd' doc = Some r
                                            \<and> search_entry sv (doi_of (m_id doc)) r doc = Inr e))
   \<and> (map_of (m_metadata doc) ''rec_id'' = Some k \<and> py_hashable k \<and> dict_find rd k = None \<longrightarrow>
        run_docs_list str rd (doc # docs) acc = run_docs_list str rd docs acc)
   \<and> (search_record_of rd' doc' = None \<longrightarrow>
        search_docs_list sv rd' (doc' # docs') acc' = search_docs_list sv rd' docs' acc')
   \<and> (embeddings_create sv query (OPENAI_EMBEDDING_MODEL_V3 cfg) = Inr data
       \<and> first_item data = Inr v
       \<and> index_query sv (run_query cfg v top_k doc_ids) = Inr matches
       \<and> run_id_set matches [] = Inr id_set
       \<and> xata_query sv ''ESG'' (run_payload id_set) = Inr xata_response
       \<and> py_iter (run_records xata_response) = Inr [] \<longrightarrow>
        SearchESG_run cfg sv query top_k doc_ids = Inr (py_str sv (PList [])))
   \<and> (embeddings_create sv query (OPENAI_EMBEDDING_MODEL_V3 cfg) = Inr data
       \<and> first_item data = Inr v
       \<and> index_query sv (search_query cfg v top_k) = Inr matches'
       \<and> search_doi_set matches' [] = Inr doi_set
       \<and> supabase_select_in sv ''journals'' ''doi,title,authors'' ''doi'' doi_set = Inr records
       \<and> py_iter records = Inr [] \<longrightarrow>
        search cfg sv query top_k = Inr [])"
proof -
  have esg: "run_docs_list str rd docs [] = Inr out \<longrightarrow>
      length out \<le> length docs
      \<and> (\<forall>e\<in>set out. \<exists>doc\<in>set docs. \<exists>r. run_record_of rd doc = Some r
                                          \<and> run_entry str r doc = Inr e)"
    using run_docs_list_length [of str rd docs out] run_docs_list_sources [of str rd docs out]
    by auto
  have sci: "search_docs_list sv rd' docs' [] = Inr out' \<longrightarrow>
      length out' \<le> length docs'
      \<and> (\<forall>e\<in>set out'. \<exists>doc\<in>set docs'. \<exists>r. search_record_of rd' doc = Some r
                                            \<and> search_entry sv (doi_of (m_id doc)) r doc = Inr e)"
    using search_docs_list_length [of sv rd' docs' out']
      search_docs_list_sources [of sv rd' docs' out']
    by auto
  have esg_skip: "map_of (m_metadata doc) ''rec_id'' = Some k \<and> py_hashable k
        \<and> dict_find rd k = None \<longrightarrow>
        run_docs_list str rd (doc # docs) acc = run_docs_list str rd docs acc"
    by (simp add: run_docs_list_found del: run_docs_list.simps)
  have sci_skip: "search_record_of rd' doc' = None \<longrightarrow>
        search_docs_list sv rd' (doc' # docs') acc' = search_docs_list sv rd' docs' acc'"
    by (simp add: search_docs_list_found search_record_of_def del: search_docs_list.simps)
  have esg_zero: "embeddings_create sv query (OPENAI_EMBEDDING_MODEL_V3 cfg) = Inr data
       \<and> first_item data = Inr v
       \<and> index_query sv (run_query cfg v top_k doc_ids) = Inr matches
       \<and> run_id_set matches [] = Inr id_set
       \<and> xata_query sv ''ESG'' (run_payload id_set) = Inr xata_response
       \<and> py_iter (run_records xata_response) = Inr [] \<longrightarrow>
        SearchESG_run cfg sv query top_k doc_ids = Inr (py_str sv (PList []))"
    using SearchESG_run_no_records by blast
  have sci_zero: "embeddings_create sv query (OPENAI_EMBEDDING_MODEL_V3 cfg) = Inr data
       \<and> first_item data = Inr v
       \<and> index_query sv (search_query cfg v top_k) = Inr matches'
       \<and> search_doi_set matches' [] = Inr doi_set
       \<and> supabase_select_in sv ''journals'' ''doi,title,authors'' ''doi'' doi_set = Inr records
       \<and> py_iter records = Inr [] \<longrightarrow>
        search cfg sv query top_k = Inr []"
    using search_no_records by blast
  from esg sci esg_skip sci_skip esg_zero sci_zero show ?thesis
    by (intro conjI) assumption+
qed

text \<open>The fixtures with a store that holds their records, and with stores that hold none.\<close>

theorem join_drops_matches_without_record_witness:
  "run_docs_list plain_str [(PStr ''abc123'', esg_record)] [esg_match, esg_orphan] []
     = Inr [esg_cited]
   \<and> length [esg_cited] \<le> length [esg_match, esg_orphan]
   \<and> (\<exists>doc\<in>set [esg_match, esg_orphan]. \<exists>r.
         run_record_of [(PStr ''abc123'', esg_record)] doc = Some r
       \<and> run_entry plain_str r doc = Inr esg_cited)
   \<and> search_docs_list fixture_services [(PStr ''10.1000/xyz'', sci_record)]
       [sci_match, sci_orphan] []
     = Inr [sci_cited]
   \<and> length [sci_cited] \<le> length [sci_match, sci_orphan]
   \<and> (\<exists>doc\<in>set [sci_match, sci_orphan]. \<exists>r.
         search_record_of [(PStr ''10.1000/xyz'', sci_record)] doc = Some r
       \<and> search_entry fixture_services (doi_of (m_id doc)) r doc = Inr sci_cited)
   \<and> dict_find [(PStr ''abc123'', esg_record)] (PStr ''zzz999'') = None
   \<and> run_docs_list plain_str [(PStr ''abc123'', esg_record)] [esg_orphan] [] = Inr []
   \<and> search_record_of [(PStr ''10.1000/xyz'', sci_record)] sci_orphan = None
   \<and> search_docs_list fixture_services [(PStr ''10.1000/xyz'', sci_record)] [sci_orphan] []
     = Inr []
   \<and> index_query empty_stores (run_query fixture_config (PList [PFloat 0, PFloat 1]) (Some 16) None)
     = Inr [esg_match, esg_orphan]
   \<and> SearchESG_run fixture_config empty_stores ''emissions'' (Some 16) None = Inr ''[]''
   \<and> index_query empty_stores (search_query fixture_config (PList [PFloat 0, PFloat 1]) (Some 16))
     = Inr [sci_match, sci_orphan]
   \<and> search fixture_config empty_stores ''soil'' (Some 16) = Inr []"
proof -
  let ?rd = "[(PStr ''abc123'', esg_record)]"
  let ?rd' = "[(PStr ''10.1000/xyz'', sci_record)]"
  let ?v = "PList [PFloat 0, PFloat 1]"
  have h1: "run_docs_list plain_str ?rd [esg_match, esg_orphan] [] = Inr [esg_cited]"
    by (rule esg_join_cited)
  have h2: "search_docs_list fixture_services ?rd' [sci_match, sci_orphan] [] = Inr [sci_cited]"
    by (rule sci_join_cited)
  have h3: "map_of (m_metadata esg_orphan) ''rec_id'' = Some (PStr ''zzz999'')
            \<and> py_hashable (PStr ''zzz999'') \<and> dict_find ?rd (PStr ''zzz999'') = None"
    by (simp add: esg_orphan_rec_id)
  have h4: "search_record_of ?rd' sci_orphan = None"
    by (simp add: search_record_of_def sci_orphan_doi)
  have e1: "embeddings_create empty_stores ''emissions'' (OPENAI_EMBEDDING_MODEL_V3 fixture_config)
              = Inr [?v]"
    and e1': "embeddings_create empty_stores ''soil'' (OPENAI_EMBEDDING_MODEL_V3 fixture_config)
              = Inr [?v]"
    and e2: "first_item [?v] = Inr ?v"
    by (simp_all add: empty_stores_def fixture_services_def first_item_def)
  have e3: "index_query empty_stores (run_query fixture_config ?v (Some 16) None)
              = Inr [esg_match, esg_orphan]"
    by (simp add: empty_stores_def fixture_services_def fixture_config_def run_query_def
          run_filter_def)
  have e4: "run_id_set [esg_match, esg_orphan] [] = Inr [PStr ''abc123'', PStr ''zzz999'']"
    by (simp add: dict_getitem_def esg_match_rec_id esg_orphan_rec_id set_add_def)
  have e5: "xata_query empty_stores ''ESG'' (run_payload [PStr ''abc123'', PStr ''zzz999''])
              = Inr [(''message'', PStr ''Unauthorized'')]"
    by (simp add: empty_stores_def)
  have e6: "py_iter (run_records [(''message'', PStr ''Unauthorized'')]) = Inr []"
    by (simp add: run_records_def)
  have f3: "index_query empty_stores (search_query fixture_config ?v (Some 16))
              = Inr [sci_match, sci_orphan]"
    by (simp add: empty_stores_def fixture_services_def fixture_config_def search_query_def)
  have f4: "search_doi_set [sci_match, sci_orphan] [] = Inr [PStr ''10.1000/xyz'', PStr []]"
    by (simp add: sci_match_doi sci_orphan_doi set_add_def)
  have f5: "supabase_select_in empty_stores ''journals'' ''doi,title,authors'' ''doi''
              [PStr ''10.1000/xyz'', PStr []] = Inr (PList [])"
    by (simp add: empty_stores_def)
  have f6: "py_iter (PList []) = Inr []" by simp
  note inst = join_drops_matches_without_record
    [where str = plain_str and rd = ?rd and docs = "[esg_match, esg_orphan]"
       and out = "[esg_cited]" and sv = fixture_services and rd' = ?rd'
       and docs' = "[sci_match, sci_orphan]" and out' = "[sci_cited]"]
  from inst [THEN conjunct1, THEN mp, OF h1]
  have c1: "length [esg_cited] \<le> length [esg_match, esg_orphan]"
    and c2: "\<forall>e\<in>set [esg_cited]. \<exists>doc\<in>set [esg_match, esg_orphan]. \<exists>r.
               run_record_of ?rd doc = Some r \<and> run_entry plain_str r doc = Inr e"
    by (rule conjunct1, rule conjunct2)
  from c2 have c2': "\<exists>doc\<in>set [esg_match, esg_orphan]. \<exists>r.
               run_record_of ?rd doc = Some r \<and> run_entry plain_str r doc = Inr esg_cited"
    by simp
  from inst [THEN conjunct2, THEN conjunct1, THEN mp, OF h2]
  have c3: "length [sci_cited] \<le> length [sci_match, sci_orphan]"
    and c4: "\<forall>e\<in>set [sci_cited]. \<exists>doc\<in>set [sci_match, sci_orphan]. \<exists>r.
               search_record_of ?rd' doc = Some r
             \<and> search_entry fixture_services (doi_of (m_id doc)) r doc = Inr e"
    by (rule conjunct1, rule conjunct2)
  from c4 have c4': "\<exists>doc\<in>set [sci_match, sci_orphan]. \<exists>r.
               search_record_of ?rd' doc = Some r
             \<and> search_entry fixture_services (doi_of (m_id doc)) r doc = Inr sci_cited"
    by simp
  note skip = join_drops_matches_without_record
    [where str = plain_str and rd = ?rd and doc = esg_orphan and k = "PStr ''zzz999''"
       and docs = "[]" and acc = "[]" and sv = fixture_services and rd' = ?rd'
       and doc' = sci_orphan and docs' = "[]" and acc' = "[]"]
  from skip [THEN conjunct2, THEN conjunct2, THEN conjunct1, THEN mp, OF h3]
  have "run_docs_list plain_str ?rd [esg_orphan] [] = run_docs_list plain_str ?rd [] []" .
  then have c5: "run_docs_list plain_str ?rd [esg_orphan] [] = Inr []" by simp
  from skip [THEN conjunct2, THEN conjunct2, THEN conjunct2, THEN conjunct1, THEN mp, OF h4]
  have "search_docs_list fixture_services ?rd' [sci_orphan] []
                       = search_docs_list fixture_services ?rd' [] []" .
  then have c6: "search_docs_list fixture_services ?rd' [sci_orphan] [] = Inr []" by simp
  note zero = join_drops_matches_without_record
    [where sv = empty_stores and cfg = fixture_config and query = "''emissions''"
       and data = "[?v]" and v = ?v and top_k = "Some 16" and doc_ids = None
       and matches = "[esg_match, esg_orphan]"
       and id_set = "[PStr ''abc123'', PStr ''zzz999'']"
       and xata_response = "[(''message'', PStr ''Unauthorized'')]"]
  from zero [THEN conjunct2, THEN conjunct2, THEN conjunct2, THEN conjunct2, THEN conjunct1,
             THEN mp, OF conjI [OF e1 conjI [OF e2 conjI [OF e3 conjI [OF e4 conjI [OF e5 e6]]]]]]
  have "SearchESG_run fixture_config empty_stores ''emissions'' (Some 16) None
          = Inr (py_str empty_stores (PList []))" .
  then have c7: "SearchESG_run fixture_config empty_stores ''emissions'' (Some 16) None = Inr ''[]''"
    by (simp add: empty_stores_def fixture_services_def plain_str_def)
  note zero' = join_drops_matches_without_record
    [where sv = empty_stores and cfg = fixture_config and query = "''soil''"
       and data = "[?v]" and v = ?v and top_k = "Some 16"
       and matches' = "[sci_match, sci_orphan]"
       and doi_set = "[PStr ''10.1000/xyz'', PStr []]" and records = "PList []"]
  from zero' [THEN conjunct2, THEN conjunct2, THEN conjunct2, THEN conjunct2, THEN conjunct2,
              THEN mp, OF conjI [OF e1' conjI [OF e2 conjI [OF f3 conjI [OF f4 conjI [OF f5 f6]]]]]]
  have c8: "search fixture_config empty_stores ''soil'' (Some 16) = Inr []" .
  from h3 have h3': "dict_find ?rd (PStr ''zzz999'') = None" by simp
  from h1 c1 c2' h2 c3 c4' h3' c5 h4 c6 e3 c7 f3 c8 show ?thesis
    by (intro conjI) assumption+
qed

section \<open>The fixture of the ESG pipeline\<close>

text \<open>
  Claim C2.  In the ESG pipeline, a match whose metadata has the
  \<^verbatim>\<open>rec_id\<close> \<^verbatim>\<open>"abc123"\<close> and the page number \<open>3.0\<close>, joined to
  the record with identifier \<^verbatim>\<open>"abc123"\<close>, company short name
  \<^verbatim>\<open>"ACME"\<close>, report title \<^verbatim>\<open>"Impact Report"\<close> and publication date
  \<^verbatim>\<open>"2023-05-04T00:00:00Z"\<close>, gives one entry whose source is
  \<^verbatim>\<open>"ACME. Impact Report. 2023-05-04. (P3)"\<close>.
\<close>

theorem esg_fixture_source:
  assumes "map_of (m_metadata doc) ''rec_id'' = Some (PStr ''abc123'')"
    and "map_of (m_metadata doc) ''page_number'' = Some (PFloat 3)"
    and "map_of (m_metadata doc) ''text'' = Some text"
    and "map_of r ''id'' = Some (PStr ''abc123'')"
    and "map_of r ''company_short_name'' = Some (PStr ''ACME'')"
    and "map_of r ''report_title'' = Some (PStr ''Impact Report'')"
    and "map_of r ''publication_date'' = Some (PStr ''2023-05-04T00:00:00Z'')"
  shows "run_records_dict [PDict r] [] = Inr [(PStr ''abc123'', PDict r)]
    \<and> run_docs_list str [(PStr ''abc123'', PDict r)] [doc] []
        = Inr [\<lparr>content = text, source = ''ACME. Impact Report. 2023-05-04. (P3)''\<rparr>]"
proof -
  from assms(4) have ne: "r \<noteq> []" by auto
  have rd: "run_records_dict [PDict r] [] = Inr [(PStr ''abc123'', PDict r)]"
    using assms(4) by (simp add: dict_getitem_def dict_setitem_def)
  have e: "run_entry str (PDict r) doc
             = Inr \<lparr>content = text, source = ''ACME. Impact Report. 2023-05-04. (P3)''\<rparr>"
    using assms
    by (simp add: run_entry_def dict_getitem_def fixture_date fixture_date_formatted
          trunc_3 format_int_3 py_format_def)
  have "run_docs_list str [(PStr ''abc123'', PDict r)] [doc] []
        = Inr [\<lparr>content = text, source = ''ACME. Impact Report. 2023-05-04. (P3)''\<rparr>]"
    using assms(1) ne by (simp add: dict_getitem_def dict_get_def e)
  with rd show ?thesis by simp
qed

text \<open>The fixture match and record.\<close>

theorem esg_fixture_source_witness:
  "map_of (m_metadata esg_match) ''rec_id'' = Some (PStr ''abc123'')
   \<and> map_of (m_metadata esg_match) ''page_number'' = Some (PFloat 3)
   \<and> esg_record = PDict [(''id'', PStr ''abc123''), (''company_short_name'', PStr ''ACME''),
                          (''report_title'', PStr ''Impact Report''),
                          (''publication_date'', PStr ''2023-05-04T00:00:00Z'')]
   \<and> run_records_dict [esg_record] [] = Inr [(PStr ''abc123'', esg_record)]
   \<and> run_docs_list plain_str [(PStr ''abc123'', esg_record)] [esg_match] []
       = Inr [\<lparr>content = PStr ''Scope 1 emissions fell.'',
                source = ''ACME. Impact Report. 2023-05-04. (P3)''\<rparr>]"
proof -
  let ?r = "[(''id'', PStr ''abc123''), (''company_short_name'', PStr ''ACME''),
             (''report_title'', PStr ''Impact Report''),
             (''publication_date'', PStr ''2023-05-04T00:00:00Z'')]"
  have h1: "map_of (m_metadata esg_match) ''rec_id'' = Some (PStr ''abc123'')"
    and h2: "map_of (m_metadata esg_match) ''page_number'' = Some (PFloat 3)"
    and h3: "map_of (m_metadata esg_match) ''text'' = Some (PStr ''Scope 1 emissions fell.'')"
    by (simp_all add: esg_match_def)
  have h4: "map_of ?r ''id'' = Some (PStr ''abc123'')"
    and h5: "map_of ?r ''company_short_name'' = Some (PStr ''ACME'')"
    and h6: "map_of ?r ''report_title'' = Some (PStr ''Impact Report'')"
    and h7: "map_of ?r ''publication_date'' = Some (PStr ''2023-05-04T00:00:00Z'')"
    by simp_all
  have r: "esg_record = PDict ?r" by (simp add: esg_record_def)
  from esg_fixture_source [OF h1 h2 h3 h4 h5 h6 h7, of plain_str] h1 h2 r
  show ?thesis by simp
qed

section \<open>Correlation keys\<close>



section \<open>The identifier allow-list\<close>

text \<open>
  Claim C4.  For a non-empty allow-list \<^verbatim>\<open>doc_ids\<close> the request the ESG
  tool sends to the index carries the set-membership filter
  \<^verbatim>\<open>{"rec_id": {"$in": doc_ids}}\<close>.  When the matches returned satisfy the
  filter of the request, every one of them has a \<^verbatim>\<open>rec_id\<close> of the
  allow-list.  The tool consults the index with that filter only: an index
  that answers differently to requests with another filter gives the same
  result.
\<close>

theorem allow_list_filter:
  assumes "ids \<noteq> []"
  shows "q_filter (run_query cfg v top_k (Some ids))
           = PDict [(''rec_id'', PDict [(''$in'', PList (map PStr ids))])]
    \<and> (list_all (satisfies_filter (q_filter (run_query cfg v top_k (Some ids)))) matches \<longrightarrow>
         (\<forall>m\<in>set matches. \<exists>i\<in>set ids. map_of (m_metadata m) ''rec_id'' = Some (PStr i)))
    \<and> ((\<forall>q. q_filter q = PDict [(''rec_id'', PDict [(''$in'', PList (map PStr ids))])] \<longrightarrow>
              index_query sv' q = index_query sv q) \<longrightarrow>
         SearchESG_run cfg (sv\<lparr>index_query := index_query sv'\<rparr>) query top_k' (Some ids)
           = SearchESG_run cfg sv query top_k' (Some ids))"
proof -
  let ?f = "PDict [(''rec_id'', PDict [(''$in'', PList (map PStr ids))])]"
  have c1: "q_filter (run_query cfg v top_k (Some ids)) = ?f"
    using assms by (simp add: run_query_def run_filter_Some)
  have c2: "list_all (satisfies_filter (q_filter (run_query cfg v top_k (Some ids)))) matches \<longrightarrow>
         (\<forall>m\<in>set matches. \<exists>i\<in>set ids. map_of (m_metadata m) ''rec_id'' = Some (PStr i))"
    by (auto simp: c1 list_all_iff list_ex_key_eq_PStr split: option.splits)
  have c3: "(\<forall>q. q_filter q = ?f \<longrightarrow> index_query sv' q = index_query sv q) \<longrightarrow>
         SearchESG_run cfg (sv\<lparr>index_query := index_query sv'\<rparr>) query top_k' (Some ids)
           = SearchESG_run cfg sv query top_k' (Some ids)"
  proof
    assume same: "\<forall>q. q_filter q = ?f \<longrightarrow> index_query sv' q = index_query sv q"
    have "index_query sv' (run_query cfg w top_k' (Some ids))
            = index_query sv (run_query cfg w top_k' (Some ids))" for w
      using same assms by (simp add: run_query_def run_filter_Some)
    then show "SearchESG_run cfg (sv\<lparr>index_query := index_query sv'\<rparr>) query top_k' (Some ids)
           = SearchESG_run cfg sv query top_k' (Some ids)"
      by (simp add: SearchESG_run_def)
  qed
  from c1 c2 c3 show ?thesis by (intro conjI) assumption+
qed

text \<open>The allow-list \<^verbatim>\<open>["abc123"]\<close> on the fixtures.\<close>

theorem allow_list_filter_witness:
  "[''abc123''] \<noteq> []
   \<and> q_filter (run_query fixture_config (PList []) (Some 16) (Some [''abc123'']))
       = PDict [(''rec_id'', PDict [(''$in'', PList [PStr ''abc123''])])]
   \<and> list_all (satisfies_filter (q_filter (run_query fixture_config (PList []) (Some 16)
                 (Some [''abc123'']))))
        [esg_match]
   \<and> (\<exists>i. i \<in> set [''abc123''] \<and> map_of (m_metadata esg_match) ''rec_id'' = Some (PStr i))
   \<and> \<not> satisfies_filter (q_filter (run_query fixture_config (PList []) (Some 16)
                 (Some [''abc123''])))
          esg_orphan
   \<and> index_query unfiltered_down (run_query fixture_config (PList []) (Some 16) None)
       = Inl (ServiceError ''unfiltered'')
   \<and> SearchESG_run fixture_config
        (fixture_services\<lparr>index_query := index_query unfiltered_down\<rparr>)
        ''emissions'' (Some 16) (Some [''abc123''])
       = SearchESG_run fixture_config fixture_services ''emissions'' (Some 16) (Some [''abc123''])"
proof -
  have h1: "[''abc123''] \<noteq> []" by simp
  note inst = allow_list_filter
    [OF h1, where cfg = fixture_config and v = "PList []" and top_k = "Some 16"
       and matches = "[esg_match]" and sv = fixture_services and sv' = unfiltered_down
       and query = "''emissions''" and top_k' = "Some 16"]
  from inst have c1: "q_filter (run_query fixture_config (PList []) (Some 16) (Some [''abc123'']))
       = PDict [(''rec_id'', PDict [(''$in'', PList [PStr ''abc123''])])]" by simp
  have h2: "list_all (satisfies_filter (q_filter (run_query fixture_config (PList []) (Some 16)
                 (Some [''abc123'']))))
        [esg_match]"
    by (simp add: c1 esg_match_def)
  from inst h2 have c2: "\<forall>m\<in>set [esg_match]. \<exists>i\<in>set [''abc123''].
                           map_of (m_metadata m) ''rec_id'' = Some (PStr i)" by blast
  have h3: "\<forall>q. q_filter q = PDict [(''rec_id'', PDict [(''$in'', PList (map PStr [''abc123'']))])] \<longrightarrow>
            index_query unfiltered_down q = index_query fixture_services q"
    by (simp add: unfiltered_down_def)
  from inst h3 have c3: "SearchESG_run fixture_config
        (fixture_services\<lparr>index_query := index_query unfiltered_down\<rparr>)
        ''emissions'' (Some 16) (Some [''abc123''])
       = SearchESG_run fixture_config fixture_services ''emissions'' (Some 16) (Some [''abc123''])"
    by blast
  from c2 have c2': "\<exists>i. i \<in> set [''abc123'']
                         \<and> map_of (m_metadata esg_match) ''rec_id'' = Some (PStr i)" by auto
  have c4: "\<not> satisfies_filter (q_filter (run_query fixture_config (PList []) (Some 16)
                 (Some [''abc123''])))
          esg_orphan"
    by (simp add: c1 esg_orphan_def)
  have c5: "index_query unfiltered_down (run_query fixture_config (PList []) (Some 16) None)
       = Inl (ServiceError ''unfiltered'')"
    by (simp add: unfiltered_down_def run_query_def run_filter_def)
  from h1 c1 h2 c2' c4 c5 c3 show ?thesis by (intro conjI) assumption+
qed

text \<open>
  Claim C5.  For the ESG tool an empty allow-list and an absent allow-list
  both give a vector-search request whose filter is \<open>None\<close>: the two
  requests are the same request, no match is excluded by its filter, and
  the tool answers the same in both cases.
\<close>

theorem empty_allow_list_unfiltered:
  "run_filter (Some []) = PNone
   \<and> run_filter None = PNone
   \<and> q_filter (run_query cfg v top_k (Some [])) = PNone
   \<and> q_filter (run_query cfg v top_k None) = PNone
   \<and> run_query cfg v top_k (Some []) = run_query cfg v top_k None
   \<and> satisfies_filter (q_filter (run_query cfg v top_k (Some []))) m
   \<and> satisfies_filter (q_filter (run_query cfg v top_k None)) m
   \<and> SearchESG_run cfg sv query top_k (Some []) = SearchESG_run cfg sv query top_k None"
  by (simp add: run_filter_def run_query_def SearchESG_run_def)

section \<open>The two entry points of the ESG tool\<close>

text \<open>Each statement of the coroutine computes what its twin in \<^verbatim>\<open>_run\<close> computes.\<close>

lemma arun_filter_eq: "arun_filter doc_ids = run_filter doc_ids"
  by (simp add: arun_filter_def run_filter_def)

lemma arun_query_eq: "arun_query cfg v k d = run_query cfg v k d"
  by (simp add: arun_query_def run_query_def arun_filter_eq)

lemma arun_id_set_eq: "arun_id_set docs s = run_id_set docs s"
  by (induction docs arbitrary: s) (simp_all add: bindE_def split: sum.splits)

lemma arun_payload_eq: "arun_payload s = run_payload s"
  by (simp add: arun_payload_def run_payload_def)

lemma arun_records_eq: "arun_records r = run_records r"
  by (simp add: arun_records_def run_records_def)

lemma arun_records_dict_eq: "arun_records_dict rs d = run_records_dict rs d"
  by (induction rs arbitrary: d) (simp_all add: bindE_def split: sum.splits)

lemma arun_entry_eq: "arun_entry str r doc = run_entry str r doc"
  by (simp add: arun_entry_def run_entry_def)

lemma arun_docs_list_eq: "arun_docs_list str rd docs acc = run_docs_list str rd docs acc"
  by (induction docs arbitrary: acc) (simp_all add: arun_entry_eq bindE_def split: sum.splits)

text \<open>
  Claim C6.  The blocking entry point \<^verbatim>\<open>_run\<close> and the non-blocking entry
  point \<^verbatim>\<open>_arun\<close> of the ESG tool give the same result for every query,
  \<^verbatim>\<open>top_k\<close> and \<^verbatim>\<open>doc_ids\<close> and every behaviour of the external
  services: the same string when they return, the same exception when they
  raise.
\<close>

theorem run_arun_identical:
  "SearchESG_run cfg sv query top_k doc_ids = SearchESG_arun cfg sv query top_k doc_ids"
  by (simp add: SearchESG_arun_def SearchESG_run_def arun_query_eq arun_id_set_eq
        arun_payload_eq arun_records_eq arun_records_dict_eq arun_docs_list_eq)

section \<open>Order and number of the entries\<close>

text \<open>
  Claim C7.  In both pipelines the entries come out in the order of the
  matches of the vector search: the output of the join loop is, position by
  position, the list of the matches that are kept (those whose record is
  found), each turned into its entry.  A match that occurs twice gives two
  entries and nothing is cut off: there are as many entries as kept
  matches.  The same holds for what the two functions return, the ESG tool
  returning the printed list of its entries.
\<close>

theorem join_keeps_rank_order:
  "(run_docs_list str rd docs [] = Inr out \<longrightarrow>
      list_all2 (\<lambda>doc e. \<exists>r. run_record_of rd doc = Some r \<and> run_entry str r doc = Inr e)
        (filter (run_kept rd) docs) out
      \<and> length out = length (filter (run_kept rd) docs))
   \<and> (search_docs_list sv rd' docs' [] = Inr out' \<longrightarrow>
      list_all2 (\<lambda>doc e. \<exists>r. search_record_of rd' doc = Some r
                            \<and> search_entry sv (doi_of (m_id doc)) r doc = Inr e)
        (filter (search_kept rd') docs') out'
      \<and> length out' = length (filter (search_kept rd') docs'))
   \<and> (SearchESG_run cfg sv' query top_k doc_ids = Inr s \<longrightarrow>
        (\<exists>v matches records_dict docs_list.
            index_query sv' (run_query cfg v top_k doc_ids) = Inr matches
          \<and> list_all2 (\<lambda>doc e. \<exists>r. run_record_of records_dict doc = Some r
                                   \<and> run_entry (py_str sv') r doc = Inr e)
               (filter (run_kept records_dict) matches) docs_list
          \<and> s = py_str sv' (PList (map entry_dict docs_list))))
   \<and> (search cfg sv' query top_k = Inr res \<longrightarrow>
        (\<exists>v matches records_dict.
            index_query sv' (search_query cfg v top_k) = Inr matches
          \<and> list_all2 (\<lambda>doc e. \<exists>r. search_record_of records_dict doc = Some r
                                   \<and> search_entry sv' (doi_of (m_id doc)) r doc = Inr e)
               (filter (search_kept records_dict) matches) res))"
proof -
  have esg: "run_docs_list str rd docs [] = Inr out \<longrightarrow>
      list_all2 (\<lambda>doc e. \<exists>r. run_record_of rd doc = Some r \<and> run_entry str r doc = Inr e)
        (filter (run_kept rd) docs) out
      \<and> length out = length (filter (run_kept rd) docs)"
    using run_docs_list_Inr [of str rd docs out] run_docs_list_length [of str rd docs out]
    by blast
  have sci: "search_docs_list sv rd' docs' [] = Inr out' \<longrightarrow>
      list_all2 (\<lambda>doc e. \<exists>r. search_record_of rd' doc = Some r
                            \<and> search_entry sv (doi_of (m_id doc)) r doc = Inr e)
        (filter (search_kept rd') docs') out'
      \<and> length out' = length (filter (search_kept rd') docs')"
    using search_docs_list_Inr [of sv rd' docs' out']
      search_docs_list_length [of sv rd' docs' out']
    by blast
  have esg_top: "SearchESG_run cfg sv' query top_k doc_ids = Inr s \<longrightarrow>
        (\<exists>v matches records_dict docs_list.
            index_query sv' (run_query cfg v top_k doc_ids) = Inr matches
          \<and> list_all2 (\<lambda>doc e. \<exists>r. run_record_of records_dict doc = Some r
                                   \<and> run_entry (py_str sv') r doc = Inr e)
               (filter (run_kept records_dict) matches) docs_list
          \<and> s = py_str sv' (PList (map entry_dict docs_list)))"
  proof
    assume "SearchESG_run cfg sv' query top_k doc_ids = Inr s"
    from SearchESG_run_Inr [OF this] obtain v matches rd0 dl where
      "index_query sv' (run_query cfg v top_k doc_ids) = Inr matches"
      "run_docs_list (py_str sv') rd0 matches [] = Inr dl"
      "s = py_str sv' (PList (map entry_dict dl))" by blast
    with run_docs_list_Inr [of "py_str sv'" rd0 matches dl]
    show "\<exists>v matches records_dict docs_list.
            index_query sv' (run_query cfg v top_k doc_ids) = Inr matches
          \<and> list_all2 (\<lambda>doc e. \<exists>r. run_record_of records_dict doc = Some r
                                   \<and> run_entry (py_str sv') r doc = Inr e)
               (filter (run_kept records_dict) matches) docs_list
          \<and> s = py_str sv' (PList (map entry_dict docs_list))" by blast
  qed
  have sci_top: "search cfg sv' query top_k = Inr res \<longrightarrow>
        (\<exists>v matches records_dict.
            index_query sv' (search_query cfg v top_k) = Inr matches
          \<and> list_all2 (\<lambda>doc e. \<exists>r. search_record_of records_dict doc = Some r
                                   \<and> search_entry sv' (doi_of (m_id doc)) r doc = Inr e)
               (filter (search_kept records_dict) matches) res)"
  proof
    assume "search cfg sv' query top_k = Inr res"
    from search_Inr [OF this] obtain v matches rd0 where
      "index_query sv' (search_query cfg v top_k) = Inr matches"
      "search_docs_list sv' rd0 matches [] = Inr res" by blast
    with search_docs_list_Inr [of sv' rd0 matches res]
    show "\<exists>v matches records_dict.
            index_query sv' (search_query cfg v top_k) = Inr matches
          \<and> list_all2 (\<lambda>doc e. \<exists>r. search_record_of records_dict doc = Some r
                                   \<and> search_entry sv' (doi_of (m_id doc)) r doc = Inr e)
               (filter (search_kept records_dict) matches) res" by blast
  qed
  from esg sci esg_top sci_top show ?thesis by (intro conjI) assumption+
qed

text \<open>The entries of the fixtures, with a match listed twice.\<close>

theorem join_keeps_rank_order_witness:
  "run_docs_list plain_str [(PStr ''abc123'', esg_record)] [esg_match, esg_orphan, esg_match] []
     = Inr [esg_cited, esg_cited]
   \<and> filter (run_kept [(PStr ''abc123'', esg_record)]) [esg_match, esg_orphan, esg_match]
     = [esg_match, esg_match]
   \<and> list_all2 (\<lambda>doc e. \<exists>r. run_record_of [(PStr ''abc123'', esg_record)] doc = Some r
                          \<and> run_entry plain_str r doc = Inr e)
       [esg_match, esg_match] [esg_cited, esg_cited]
   \<and> search_docs_list fixture_services [(PStr ''10.1000/xyz'', sci_record)]
       [sci_orphan, sci_match, sci_match] []
     = Inr [sci_cited, sci_cited]
   \<and> length [sci_cited, sci_cited]
     = length (filter (search_kept [(PStr ''10.1000/xyz'', sci_record)])
                [sci_orphan, sci_match, sci_match])
   \<and> SearchESG_run fixture_config fixture_services ''emissions'' (Some 16) None = Inr ''...''
   \<and> (\<exists>v matches records_dict docs_list.
         index_query fixture_services (run_query fixture_config v (Some 16) None) = Inr matches
       \<and> list_all2 (\<lambda>doc e. \<exists>r. run_record_of records_dict doc = Some r
                                \<and> run_entry (py_str fixture_services) r doc = Inr e)
            (filter (run_kept records_dict) matches) docs_list
       \<and> ''...'' = py_str fixture_services (PList (map entry_dict docs_list)))
   \<and> search fixture_config fixture_services ''soil'' (Some 16) = Inr [sci_cited]
   \<and> (\<exists>v matches records_dict.
         index_query fixture_services (search_query fixture_config v (Some 16)) = Inr matches
       \<and> list_all2 (\<lambda>doc e. \<exists>r. search_record_of records_dict doc = Some r
                                \<and> search_entry fixture_services (doi_of (m_id doc)) r doc = Inr e)
            (filter (search_kept records_dict) matches) [sci_cited])"
proof -
  let ?rd = "[(PStr ''abc123'', esg_record)]"
  let ?rd' = "[(PStr ''10.1000/xyz'', sci_record)]"
  note inst = join_keeps_rank_order
    [where str = plain_str and rd = ?rd
       and docs = "[esg_match, esg_orphan, esg_match]" and out = "[esg_cited, esg_cited]"
       and sv = fixture_services and rd' = ?rd'
       and docs' = "[sci_orphan, sci_match, sci_match]" and out' = "[sci_cited, sci_cited]"
       and cfg = fixture_config and sv' = fixture_services and query = "''emissions''"
       and top_k = "Some 16" and doc_ids = None and s = "''...''"]
  note inst' = join_keeps_rank_order
    [where cfg = fixture_config and sv' = fixture_services and query = "''soil''"
       and top_k = "Some 16" and res = "[sci_cited]"]
  from inst [THEN conjunct1, THEN mp, OF esg_join_twice, THEN conjunct1]
  have c1: "list_all2 (\<lambda>doc e. \<exists>r. run_record_of ?rd doc = Some r
                          \<and> run_entry plain_str r doc = Inr e)
       [esg_match, esg_match] [esg_cited, esg_cited]"
    by (simp only: esg_kept_twice)
  from inst [THEN conjunct2, THEN conjunct1, THEN mp, OF sci_join_twice, THEN conjunct2]
  have c2: "length [sci_cited, sci_cited]
     = length (filter (search_kept ?rd') [sci_orphan, sci_match, sci_match])" .
  from inst [THEN conjunct2, THEN conjunct2, THEN conjunct1, THEN mp, OF fixture_run]
  have c3: "\<exists>v matches records_dict docs_list.
         index_query fixture_services (run_query fixture_config v (Some 16) None) = Inr matches
       \<and> list_all2 (\<lambda>doc e. \<exists>r. run_record_of records_dict doc = Some r
                                \<and> run_entry (py_str fixture_services) r doc = Inr e)
            (filter (run_kept records_dict) matches) docs_list
       \<and> ''...'' = py_str fixture_services (PList (map entry_dict docs_list))" .
  from inst' [THEN conjunct2, THEN conjunct2, THEN conjunct2, THEN mp, OF fixture_search]
  have c4: "\<exists>v matches records_dict.
         index_query fixture_services (search_query fixture_config v (Some 16)) = Inr matches
       \<and> list_all2 (\<lambda>doc e. \<exists>r. search_record_of records_dict doc = Some r
                                \<and> search_entry fixture_services (doi_of (m_id doc)) r doc = Inr e)
            (filter (search_kept records_dict) matches) [sci_cited]" .
  from esg_join_twice esg_kept_twice c1 sci_join_twice c2 fixture_run c3 fixture_search c4
  show ?thesis by (intro conjI) assumption+
qed

section \<open>Citation formatting\<close>

text \<open>
  Claim C8.  Each pipeline formats its citation by a fixed template.  The
  ESG tool prints the company short name, the report title, the record's
  publication date as year, month and day (\<^verbatim>\<open>%Y-%m-%d\<close>) and the
  match's page number converted by \<^verbatim>\<open>int\<close>, which truncates a float,
  and printed in decimal; for a timestamp of twenty characters whose day is
  written with two digits, the date printed is the first ten characters of
  the timestamp without the zeros its year begins with, so the first ten
  characters themselves when the year has four digits.  The academic
  function prints the record's title, the match's journal, the record's
  authors joined by a comma and a blank, the match's date as year and
  month (\<^verbatim>\<open>%Y-%m\<close>), and a link \<^verbatim>\<open>https://doi.org/\<close> followed by the
  DOI, which the join loop takes from the correlation key.
\<close>

theorem citation_templates:
  "(map_of r ''publication_date'' = Some publication_date
    \<and> strptime_iso publication_date = Inr date
    \<and> map_of (m_metadata doc) ''page_number'' = Some page_number
    \<and> py_int page_number = Inr page
    \<and> format_int page = Inr page_str
    \<and> map_of (m_metadata doc) ''text'' = Some passage \<longrightarrow>
      run_entry str (PDict r) doc =
        Inr \<lparr>content = passage,
             source =
               py_format str (case map_of r ''company_short_name'' of None \<Rightarrow> PStr [] | Some c \<Rightarrow> c)
               @ ''. ''
               @ py_format str (case map_of r ''report_title'' of None \<Rightarrow> PStr [] | Some t \<Rightarrow> t)
               @ ''. ''
               @ str_nat (dt_year date) @ ''-''
               @ zero_pad 2 (str_nat (dt_month date)) @ ''-''
               @ zero_pad 2 (str_nat (dt_day date))
               @ ''. (P'' @ page_str @ '')''\<rparr>)
   \<and> py_int (PFloat q) = Inr (if 0 \<le> q then \<lfloor>q\<rfloor> else \<lceil>q\<rceil>)
   \<and> (length (str_nat (nat \<bar>n\<bar>)) \<le> 4300 \<longrightarrow> format_int n = Inr (str_int n))
   \<and> py_format str (PStr s) = s
   \<and> (map_of (m_metadata doc') ''date'' = Some timestamp
      \<and> fromtimestamp sv timestamp = Inr date'
      \<and> map_of r' ''authors'' = Some (PList (map PStr authors))
      \<and> map_of r' ''title'' = Some title
      \<and> map_of (m_metadata doc') ''journal'' = Some journal
      \<and> map_of (m_metadata doc') ''text'' = Some passage' \<longrightarrow>
      search_entry sv doi (PDict r') doc' =
        Inr \<lparr>content = passage',
             source =
               ''['' @ py_format (py_str sv) title @ ''. '' @ py_format (py_str sv) journal
               @ ''. '' @ intercalate '', '' authors @ ''. ''
               @ str_nat (dt_year date') @ ''-''
               @ zero_pad 2 (str_nat (dt_month date'))
               @ ''.](https://doi.org/'' @ doi @ '')''\<rparr>)
   \<and> (search_record_of rd doc' = Some found \<and> py_truthy found \<longrightarrow>
        search_docs_list sv rd [doc'] [] =
          bindE (search_entry sv (doi_of (m_id doc')) found doc') (\<lambda>e. Inr [e]))
   \<and> (strptime_iso (PStr stamp) = Inr date \<and> length stamp = 20 \<and> stamp ! 8 \<noteq> CHR '' '' \<longrightarrow>
        str_nat (dt_year date) @ ''-''
        @ zero_pad 2 (str_nat (dt_month date)) @ ''-''
        @ zero_pad 2 (str_nat (dt_day date))
          = dropWhile (\<lambda>c. c = CHR ''0'') (take 10 stamp))
   \<and> (strptime_iso (PStr stamp) = Inr date \<and> length stamp = 20 \<and> stamp ! 8 \<noteq> CHR '' ''
      \<and> stamp ! 0 \<noteq> CHR ''0'' \<longrightarrow>
        str_nat (dt_year date) @ ''-''
        @ zero_pad 2 (str_nat (dt_month date)) @ ''-''
        @ zero_pad 2 (str_nat (dt_day date)) = take 10 stamp)"
proof -
  have esg: "map_of r ''publication_date'' = Some publication_date
    \<and> strptime_iso publication_date = Inr date
    \<and> map_of (m_metadata doc) ''page_number'' = Some page_number
    \<and> py_int page_number = Inr page
    \<and> format_int page = Inr page_str
    \<and> map_of (m_metadata doc) ''text'' = Some passage \<longrightarrow>
      run_entry str (PDict r) doc =
        Inr \<lparr>content = passage,
             source =
               py_format str (case map_of r ''company_short_name'' of None \<Rightarrow> PStr [] | Some c \<Rightarrow> c)
               @ ''. ''
               @ py_format str (case map_of r ''report_title'' of None \<Rightarrow> PStr [] | Some t \<Rightarrow> t)
               @ ''. ''
               @ str_nat (dt_year date) @ ''-''
               @ zero_pad 2 (str_nat (dt_month date)) @ ''-''
               @ zero_pad 2 (str_nat (dt_day date))
               @ ''. (P'' @ page_str @ '')''\<rparr>"
    by (simp add: run_entry_def dict_getitem_def strftime_Ymd_def)
  have int: "py_int (PFloat q) = Inr (if 0 \<le> q then \<lfloor>q\<rfloor> else \<lceil>q\<rceil>)"
    by (simp add: trunc_def)
  have dec: "length (str_nat (nat \<bar>n\<bar>)) \<le> 4300 \<longrightarrow> format_int n = Inr (str_int n)"
    by (simp add: format_int_def)
  have fmt: "py_format str (PStr s) = s" by (simp add: py_format_def)
  have sci: "map_of (m_metadata doc') ''date'' = Some timestamp
      \<and> fromtimestamp sv timestamp = Inr date'
      \<and> map_of r' ''authors'' = Some (PList (map PStr authors))
      \<and> map_of r' ''title'' = Some title
      \<and> map_of (m_metadata doc') ''journal'' = Some journal
      \<and> map_of (m_metadata doc') ''text'' = Some passage' \<longrightarrow>
      search_entry sv doi (PDict r') doc' =
        Inr \<lparr>content = passage',
             source =
               ''['' @ py_format (py_str sv) title @ ''. '' @ py_format (py_str sv) journal
               @ ''. '' @ intercalate '', '' authors @ ''. ''
               @ str_nat (dt_year date') @ ''-''
               @ zero_pad 2 (str_nat (dt_month date'))
               @ ''.](https://doi.org/'' @ doi @ '')''\<rparr>"
    by (simp add: search_entry_def dict_getitem_def strftime_Ym_def str_join_strs)
  have key: "search_record_of rd doc' = Some found \<and> py_truthy found \<longrightarrow>
        search_docs_list sv rd [doc'] [] =
          bindE (search_entry sv (doi_of (m_id doc')) found doc') (\<lambda>e. Inr [e])"
    by (simp add: search_record_of_def dict_get_def Let_def)
  have day: "strptime_iso (PStr stamp) = Inr date \<and> length stamp = 20
        \<and> stamp ! 8 \<noteq> CHR '' '' \<longrightarrow>
        str_nat (dt_year date) @ ''-''
        @ zero_pad 2 (str_nat (dt_month date)) @ ''-''
        @ zero_pad 2 (str_nat (dt_day date))
          = dropWhile (\<lambda>c. c = CHR ''0'') (take 10 stamp)"
    using strftime_Ymd_strptime_iso [of stamp date] by (simp add: strftime_Ymd_def)
  have day4: "strptime_iso (PStr stamp) = Inr date \<and> length stamp = 20
      \<and> stamp ! 8 \<noteq> CHR '' '' \<and> stamp ! 0 \<noteq> CHR ''0'' \<longrightarrow>
        str_nat (dt_year date) @ ''-''
        @ zero_pad 2 (str_nat (dt_month date)) @ ''-''
        @ zero_pad 2 (str_nat (dt_day date)) = take 10 stamp"
  proof (intro impI, elim conjE)
    assume a: "strptime_iso (PStr stamp) = Inr date" "length stamp = 20"
      "stamp ! 8 \<noteq> CHR '' ''" "stamp ! 0 \<noteq> CHR ''0''"
    from a(2) obtain c cs where st: "stamp = c # cs" by (cases stamp) auto
    with a(4) have "c \<noteq> CHR ''0''" by simp
    with st have "dropWhile (\<lambda>c. c = CHR ''0'') (take 10 stamp) = take 10 stamp" by simp
    with day a show "str_nat (dt_year date) @ ''-''
        @ zero_pad 2 (str_nat (dt_month date)) @ ''-''
        @ zero_pad 2 (str_nat (dt_day date)) = take 10 stamp" by simp
  qed
  from esg int dec fmt sci key day day4 show ?thesis by (intro conjI) assumption+
qed

text \<open>
  The citations of the two fixtures, a page number with a fraction, and a
  timestamp of the year 999.
\<close>

theorem citation_templates_witness:
  "run_entry plain_str esg_record esg_match = Inr esg_cited
   \<and> py_int (PFloat (7 / 2)) = Inr 3
   \<and> py_int (PFloat (- 7 / 2)) = Inr (- 3)
   \<and> format_int 3 = Inr ''3''
   \<and> py_format plain_str (PStr ''ACME'') = ''ACME''
   \<and> search_entry fixture_services ''10.1000/xyz'' sci_record sci_match = Inr sci_cited
   \<and> search_docs_list fixture_services [(PStr ''10.1000/xyz'', sci_record)] [sci_match] []
       = Inr [sci_cited]
   \<and> strptime_iso (PStr ''2023-05-04T00:00:00Z'')
       = Inr \<lparr>dt_year = 2023, dt_month = 5, dt_day = 4, dt_hour = 0, dt_minute = 0, dt_second = 0\<rparr>
   \<and> str_nat 2023 @ ''-'' @ zero_pad 2 (str_nat 5) @ ''-'' @ zero_pad 2 (str_nat 4)
       = ''2023-05-04''
   \<and> strptime_iso (PStr ''0999-01-01T00:00:00Z'')
       = Inr \<lparr>dt_year = 999, dt_month = 1, dt_day = 1, dt_hour = 0, dt_minute = 0, dt_second = 0\<rparr>
   \<and> str_nat 999 @ ''-'' @ zero_pad 2 (str_nat 1) @ ''-'' @ zero_pad 2 (str_nat 1)
       = ''999-01-01''"
proof -
  let ?r = "[(''id'', PStr ''abc123''), (''company_short_name'', PStr ''ACME''),
             (''report_title'', PStr ''Impact Report''),
             (''publication_date'', PStr ''2023-05-04T00:00:00Z'')]"
  let ?r' = "[(''doi'', PStr ''10.1000/xyz''), (''title'', PStr ''On Soil''),
              (''authors'', PList (map PStr [''A. Ng'', ''B. Ito'']))]"
  let ?d = "\<lparr>dt_year = 2023, dt_month = 5, dt_day = 4, dt_hour = 0, dt_minute = 0, dt_second = 0\<rparr>"
  let ?d' = "\<lparr>dt_year = 2023, dt_month = 5, dt_day = 4, dt_hour = 2, dt_minute = 0, dt_second = 0\<rparr>"
  let ?o = "\<lparr>dt_year = 999, dt_month = 1, dt_day = 1, dt_hour = 0, dt_minute = 0, dt_second = 0\<rparr>"
  let ?rd = "[(PStr ''10.1000/xyz'', sci_record)]"
  have a: "map_of ?r ''publication_date'' = Some (PStr ''2023-05-04T00:00:00Z'')
           \<and> strptime_iso (PStr ''2023-05-04T00:00:00Z'') = Inr ?d
           \<and> map_of (m_metadata esg_match) ''page_number'' = Some (PFloat 3)
           \<and> py_int (PFloat 3) = Inr 3
           \<and> format_int 3 = Inr ''3''
           \<and> map_of (m_metadata esg_match) ''text'' = Some (PStr ''Scope 1 emissions fell.'')"
    by (simp add: fixture_date esg_match_def trunc_3 format_int_3)
  have b: "map_of (m_metadata sci_match) ''date'' = Some (PInt 1683158400)
           \<and> fromtimestamp fixture_services (PInt 1683158400) = Inr ?d'
           \<and> map_of ?r' ''authors'' = Some (PList (map PStr [''A. Ng'', ''B. Ito'']))
           \<and> map_of ?r' ''title'' = Some (PStr ''On Soil'')
           \<and> map_of (m_metadata sci_match) ''journal'' = Some (PStr ''Geoderma'')
           \<and> map_of (m_metadata sci_match) ''text'' = Some (PStr ''Carbon is stored in soil.'')"
    by (simp add: sci_match_def fixture_services_def)
  have k: "search_record_of ?rd sci_match = Some sci_record \<and> py_truthy sci_record"
    by (simp add: search_record_of_def sci_match_doi sci_record_truthy)
  have l3: "length (str_nat (nat \<bar>3\<bar>)) \<le> 4300"
    by (simp add: str_nat.simps)
  note inst = citation_templates
    [where r = ?r and publication_date = "PStr ''2023-05-04T00:00:00Z''" and date = ?d
       and doc = esg_match and page_number = "PFloat 3" and page = 3 and page_str = "''3''"
       and passage = "PStr ''Scope 1 emissions fell.''" and str = plain_str
       and q = "7 / 2" and n = 3 and s = "''ACME''"
       and doc' = sci_match and timestamp = "PInt 1683158400" and sv = fixture_services
       and date' = ?d' and r' = ?r' and authors = "[''A. Ng'', ''B. Ito'']"
       and title = "PStr ''On Soil''" and journal = "PStr ''Geoderma''"
       and passage' = "PStr ''Carbon is stored in soil.''" and doi = "''10.1000/xyz''"
       and rd = ?rd and found = sci_record and stamp = "''2023-05-04T00:00:00Z''"]
  note inst_neg = citation_templates [where q = "- 7 / 2"]
  note inst_old = citation_templates [where date = ?o and stamp = "''0999-01-01T00:00:00Z''"]
  from inst [THEN conjunct1, THEN mp, OF a]
  have c1: "run_entry plain_str esg_record esg_match = Inr esg_cited"
    by (simp add: esg_record_def esg_cited_def py_format_def fixture_pads)
  from inst [THEN conjunct2, THEN conjunct1]
  have c2: "py_int (PFloat (7 / 2)) = Inr 3" by (simp add: floor_eq_iff)
  from inst_neg [THEN conjunct2, THEN conjunct1]
  have c3: "py_int (PFloat (- 7 / 2)) = Inr (- 3)" by (simp add: ceiling_eq_iff)
  from inst [THEN conjunct2, THEN conjunct2, THEN conjunct1, THEN mp, OF l3]
  have c3': "format_int 3 = Inr ''3''"
    by (simp add: str_int_def str_nat.simps digit_char_def)
  from inst [THEN conjunct2, THEN conjunct2, THEN conjunct2, THEN conjunct1]
  have c4: "py_format plain_str (PStr ''ACME'') = ''ACME''" .
  from inst [THEN conjunct2, THEN conjunct2, THEN conjunct2, THEN conjunct2, THEN conjunct1,
             THEN mp, OF b]
  have c5: "search_entry fixture_services ''10.1000/xyz'' sci_record sci_match = Inr sci_cited"
    by (simp add: sci_record_def sci_cited_def py_format_def fixture_pads)
  from inst [THEN conjunct2, THEN conjunct2, THEN conjunct2, THEN conjunct2, THEN conjunct2,
             THEN conjunct1, THEN mp, OF k]
  have c6: "search_docs_list fixture_services ?rd [sci_match] [] = Inr [sci_cited]"
    by (simp add: sci_match_doi c5)
  have t: "strptime_iso (PStr ''2023-05-04T00:00:00Z'') = Inr ?d
           \<and> length ''2023-05-04T00:00:00Z'' = 20
           \<and> ''2023-05-04T00:00:00Z'' ! 8 \<noteq> CHR '' ''
           \<and> ''2023-05-04T00:00:00Z'' ! 0 \<noteq> CHR ''0''"
    by (simp add: fixture_date)
  from inst [THEN conjunct2, THEN conjunct2, THEN conjunct2, THEN conjunct2, THEN conjunct2,
             THEN conjunct2, THEN conjunct2, THEN mp, OF t]
  have c7: "str_nat 2023 @ ''-'' @ zero_pad 2 (str_nat 5) @ ''-''
              @ zero_pad 2 (str_nat 4) = ''2023-05-04''"
    by simp
  have old: "strptime_iso (PStr ''0999-01-01T00:00:00Z'') = Inr ?o" by (rule old_date)
  then have t': "strptime_iso (PStr ''0999-01-01T00:00:00Z'') = Inr ?o
           \<and> length ''0999-01-01T00:00:00Z'' = 20
           \<and> ''0999-01-01T00:00:00Z'' ! 8 \<noteq> CHR '' ''"
    by simp
  from inst_old [THEN conjunct2, THEN conjunct2, THEN conjunct2, THEN conjunct2, THEN conjunct2,
                 THEN conjunct2, THEN conjunct1, THEN mp, OF t']
  have c8: "str_nat 999 @ ''-'' @ zero_pad 2 (str_nat 1) @ ''-''
              @ zero_pad 2 (str_nat 1) = ''999-01-01''"
    by simp
  from c1 c2 c3 c3' c4 c5 c6 fixture_date c7 old c8 show ?thesis by (intro conjI) assumption+
qed

section \<open>Dates that cannot be parsed\<close>



section \<open>Identifiers without underscore\<close>

text \<open>
  Claim C10.  In the academic pipeline a match whose identifier has no
  underscore gets the empty string as its correlation key: the empty string
  is what enters the DOI set, the record joined to the match is the one
  stored under the empty string, and when no record is stored under the
  empty string the join loop passes over the match, leaving the output as
  it was and raising nothing.
\<close>

theorem no_underscore_empty_key:
  assumes "CHR ''_'' \<notin> set (m_id doc)"
  shows "doi_of (m_id doc) = []
    \<and> search_doi_set [doc] [] = Inr [PStr []]
    \<and> search_record_of rd doc = dict_find rd (PStr [])
    \<and> (search_record_of rd doc = Some r \<longrightarrow> (PStr [], r) \<in> set rd)
    \<and> ((\<forall>r'. (PStr [], r') \<notin> set rd') \<longrightarrow>
          search_docs_list sv rd' (doc # docs) acc = search_docs_list sv rd' docs acc)"
proof -
  from assms have key: "doi_of (m_id doc) = []" by (rule doi_of_no_sep)
  have c2: "search_doi_set [doc] [] = Inr [PStr []]" by (simp add: key set_add_def)
  have c3: "search_record_of rd doc = dict_find rd (PStr [])"
    by (simp add: search_record_of_def key)
  have c4: "search_record_of rd doc = Some r \<longrightarrow> (PStr [], r) \<in> set rd"
    by (auto simp: c3 dest: dict_find_PStr)
  have c5: "(\<forall>r'. (PStr [], r') \<notin> set rd') \<longrightarrow>
          search_docs_list sv rd' (doc # docs) acc = search_docs_list sv rd' docs acc"
  proof
    assume "\<forall>r'. (PStr [], r') \<notin> set rd'"
    then have "dict_find rd' (PStr []) = None" by (simp add: dict_find_PStr_None)
    then show "search_docs_list sv rd' (doc # docs) acc = search_docs_list sv rd' docs acc"
      by (simp add: search_docs_list_found key del: search_docs_list.simps)
  qed
  from key c2 c3 c4 c5 show ?thesis by (intro conjI) assumption+
qed

text \<open>An identifier without underscore, with and without a record under the empty key.\<close>

theorem no_underscore_empty_key_witness:
  "CHR ''_'' \<notin> set (m_id sci_orphan)
   \<and> doi_of (m_id sci_orphan) = []
   \<and> search_record_of [(PStr [], sci_record)] sci_orphan = Some sci_record
   \<and> (PStr [], sci_record) \<in> set [(PStr [], sci_record)]
   \<and> (\<forall>r'. (PStr [], r') \<notin> set [(PStr ''10.1000/xyz'', sci_record)])
   \<and> search_docs_list fixture_services [(PStr ''10.1000/xyz'', sci_record)] [sci_orphan] [] = Inr []"
proof -
  have h1: "CHR ''_'' \<notin> set (m_id sci_orphan)" by (simp add: sci_orphan_def)
  have h3: "\<forall>r'. (PStr [], r') \<notin> set [(PStr ''10.1000/xyz'', sci_record)]" by simp
  note inst = no_underscore_empty_key
    [OF h1, where rd = "[(PStr [], sci_record)]" and r = sci_record
       and rd' = "[(PStr ''10.1000/xyz'', sci_record)]" and sv = fixture_services and docs = "[]" and acc = "[]"]
  from inst have c1: "doi_of (m_id sci_orphan) = []" by blast
  from inst have c2: "search_record_of [(PStr [], sci_record)] sci_orphan
                        = dict_find [(PStr [], sci_record)] (PStr [])" by blast
  then have h2: "search_record_of [(PStr [], sci_record)] sci_orphan = Some sci_record" by simp
  from inst h2 have c3: "(PStr [], sci_record) \<in> set [(PStr [], sci_record)]" by blast
  from inst h3 have "search_docs_list fixture_services [(PStr ''10.1000/xyz'', sci_record)] [sci_orphan] []
                       = search_docs_list fixture_services [(PStr ''10.1000/xyz'', sci_record)] [] []"
    by blast
  then have c4: "search_docs_list fixture_services [(PStr ''10.1000/xyz'', sci_record)] [sci_orphan] [] = Inr []"
    by simp
  from h1 c1 h2 c3 h3 c4 show ?thesis by blast
qed

end
